theory Spec2Isabelle
  imports Complex_Main
begin

section \<open>Exceptions\<close>

text \<open>
  The Python exceptions that the three scripts can meet. The string is the text that
  \<^verbatim>\<open>str(e)\<close> gives. \<open>KeyboardInterrupt\<close> stands for the exceptions that derive
  from \<^verbatim>\<open>BaseException\<close> only, which \<^verbatim>\<open>except Exception\<close> does not catch.
\<close>

datatype exn =
    FileNotFoundError string
  | Psycopg2Error string
  | ValueError string
  | KeyError string
  | TypeError string
  | IndexError string
  | UnboundLocalError string
  | ParserError string
  | OtherException string
  | KeyboardInterrupt

section \<open>Text\<close>

text \<open>
  A Python \<^verbatim>\<open>str\<close> is modelled as a list of characters with code points below 256.
  \<open>split_where\<close> cuts a text at every character that satisfies the predicate: \<open>n\<close> such
  characters give \<open>n + 1\<close> segments, some of them possibly empty. \<^verbatim>\<open>s.split(sep)\<close>
  with a one-character separator is the instance \<open>str_split\<close>.
\<close>

fun split_where :: "(char \<Rightarrow> bool) \<Rightarrow> string \<Rightarrow> string list" where
  "split_where P [] = [[]]"
| "split_where P (c # cs) =
     (if P c then [] # split_where P cs
      else (case split_where P cs of
              [] \<Rightarrow> [[c]]
            | seg # segs \<Rightarrow> (c # seg) # segs))"

definition str_split :: "char \<Rightarrow> string \<Rightarrow> string list" where
  "str_split sep s = split_where (\<lambda>c. c = sep) s"

text \<open>\<^verbatim>\<open>sep.join(segs)\<close>.\<close>

fun str_join :: "char \<Rightarrow> string list \<Rightarrow> string" where
  "str_join sep [] = []"
| "str_join sep [seg] = seg"
| "str_join sep (seg # segs) = seg @ sep # str_join sep segs"

text \<open>
  The characters that \<^verbatim>\<open>str.strip()\<close> removes: tab, line feed, vertical tab, form feed,
  carriage return, the four separators \<open>0x1C\<close> to \<open>0x1F\<close>, space, and (beyond ASCII)
  next line \<open>0x85\<close> and no-break space \<open>0xA0\<close>.
\<close>

definition isspace :: "char \<Rightarrow> bool" where
  "isspace c \<longleftrightarrow> (of_char c :: nat) \<in> {9, 10, 11, 12, 13, 28, 29, 30, 31, 32, 133, 160}"

definition str_strip :: "string \<Rightarrow> string" where
  "str_strip s = rev (dropWhile isspace (rev (dropWhile isspace s)))"

text \<open>The lines of a file: a line ends at a line feed or at a carriage return.\<close>

definition LF :: char where
  "LF = CHR 0x0A"

definition CR :: char where
  "CR = CHR 0x0D"

definition splitlines :: "string \<Rightarrow> string list" where
  "splitlines text = split_where (\<lambda>c. c = LF \<or> c = CR) text"

section \<open>Numbers as text\<close>

text \<open>
  A number in memory is an exact rational. pandas holds binary64 values and Python
  integers; the rounding of binary64 is not modelled, so a numeral that is read is held
  exactly, and arithmetic is exact.
\<close>

definition digit_char :: "nat \<Rightarrow> char" where
  "digit_char d = char_of (48 + d)"

definition is_digit :: "char \<Rightarrow> bool" where
  "is_digit c \<longleftrightarrow> 48 \<le> (of_char c :: nat) \<and> (of_char c :: nat) \<le> 57"

definition digit_val :: "char \<Rightarrow> nat" where
  "digit_val c = of_char c - 48"

text \<open>\<^verbatim>\<open>str(n)\<close> for a natural number, and the value of a string of digits.\<close>

fun str_nat :: "nat \<Rightarrow> string" where
  "str_nat n = (if n < 10 then [digit_char n] else str_nat (n div 10) @ [digit_char (n mod 10)])"

declare str_nat.simps [simp del]

definition nat_of_digits :: "string \<Rightarrow> nat" where
  "nat_of_digits ds = foldl (\<lambda>a c. 10 * a + digit_val c) 0 ds"

text \<open>
  A numeral of the input: an optional sign, digits, and optionally a point and more
  digits, with a digit on at least one side of the point. The result tells whether the
  numeral is an integer literal (no point), which decides the column's type, and gives its
  value. Exponents and the spellings of infinity are not modelled.
\<close>

definition parse_number :: "string \<Rightarrow> (bool \<times> rat) option" where
  "parse_number tok =
     (let neg = (tok \<noteq> [] \<and> hd tok = CHR ''-'');
          body = (if tok \<noteq> [] \<and> (hd tok = CHR ''-'' \<or> hd tok = CHR ''+'') then tl tok else tok);
          ip = takeWhile is_digit body;
          rest = dropWhile is_digit body;
          sgn = (if neg then - 1 else 1 :: rat)
      in case rest of
           [] \<Rightarrow> if ip = [] then None else Some (True, sgn * of_nat (nat_of_digits ip))
         | c # fp \<Rightarrow>
             if c = CHR ''.'' \<and> list_all is_digit fp \<and> (ip \<noteq> [] \<or> fp \<noteq> [])
             then Some (False, sgn * (of_nat (nat_of_digits ip)
                                       + of_nat (nat_of_digits fp) / 10 ^ length fp))
             else None)"

text \<open>
  Writing a number. An integer column writes \<^verbatim>\<open>str(int)\<close>. A float column writes
  Python's \<^verbatim>\<open>repr\<close> of the float, the shortest numeral that reads back as the same
  binary64, with a point and at least one digit after it. The model writes a value that
  has a finite decimal expansion in full (the digits of its fraction are produced one by
  one; as many steps as the denominator are always enough), and cuts any other value
  after 17 digits of the fraction. It never uses the exponent notation.
\<close>

fun frac_digits :: "nat \<Rightarrow> rat \<Rightarrow> string" where
  "frac_digits 0 f = []"
| "frac_digits (Suc n) f =
     (if f = 0 then []
      else digit_char (nat \<lfloor>f * 10\<rfloor>) # frac_digits n (f * 10 - of_int \<lfloor>f * 10\<rfloor>))"

definition denominator :: "rat \<Rightarrow> int" where
  "denominator q = snd (quotient_of q)"

definition is_decimal :: "rat \<Rightarrow> bool" where
  "is_decimal q \<longleftrightarrow> denominator q dvd 10 ^ nat (denominator q)"

definition float_repr :: "rat \<Rightarrow> string" where
  "float_repr q =
     (let a = \<bar>q\<bar>;
          fd = frac_digits (if is_decimal q then nat (denominator q) else 17) (a - of_int \<lfloor>a\<rfloor>)
      in (if q < 0 then ''-'' else []) @ str_nat (nat \<lfloor>a\<rfloor>) @ ''.'' @ (if fd = [] then ''0'' else fd))"

definition int_repr :: "rat \<Rightarrow> string" where
  "int_repr q = (if q < 0 then ''-'' else []) @ str_nat (nat \<lfloor>\<bar>q\<bar>\<rfloor>)"

text \<open>\<^verbatim>\<open>float.is_integer()\<close>.\<close>

definition is_integer :: "rat \<Rightarrow> bool" where
  "is_integer v \<longleftrightarrow> of_int \<lfloor>v\<rfloor> = v"

section \<open>Tables\<close>

text \<open>
  A cell holds a number or nothing: \<open>None\<close> is pandas' missing value (\<^verbatim>\<open>NaN\<close> in a
  float column, \<^verbatim>\<open>pd.NA\<close> in a nullable integer column). A column (a pandas
  \<^verbatim>\<open>Series\<close>) has one of the three types that occur in the scripts: numpy's
  \<^verbatim>\<open>int64\<close>, which has no missing value, numpy's \<^verbatim>\<open>float64\<close>, and pandas'
  nullable \<^verbatim>\<open>Int64\<close>. A table (a \<^verbatim>\<open>DataFrame\<close>) is a number of rows and a list
  of named columns. Columns of text are not modelled.
\<close>

type_synonym cell = "rat option"

datatype dtype = NumpyInt64 | NumpyFloat64 | NullableInt64

record series =
  dtype :: dtype
  cells :: "cell list"

record frame =
  nrows :: nat
  columns :: "(string \<times> series) list"

text \<open>
  Every column of a table has as many cells as the table has rows, and no two columns
  have the same name.
\<close>

definition wf_frame :: "frame \<Rightarrow> bool" where
  "wf_frame df \<longleftrightarrow>
     distinct (map fst (columns df)) \<and>
     (\<forall>(name, s) \<in> set (columns df). length (cells s) = nrows df)"

text \<open>
  \<^verbatim>\<open>df[name]\<close> raises \<^verbatim>\<open>KeyError\<close> when there is no such column. \<^verbatim>\<open>df[names]\<close>
  with a list gives a new table of these columns, in the order of the list, and raises
  \<^verbatim>\<open>KeyError\<close> when any of them is missing.
\<close>

definition getitem :: "frame \<Rightarrow> string \<Rightarrow> exn + series" where
  "getitem df name =
     (case map_of (columns df) name of
        None \<Rightarrow> Inl (KeyError name)
      | Some s \<Rightarrow> Inr s)"

definition getitem_list :: "frame \<Rightarrow> string list \<Rightarrow> exn + frame" where
  "getitem_list df names =
     (case filter (\<lambda>name. map_of (columns df) name = None) names of
        [] \<Rightarrow> Inr \<lparr>nrows = nrows df,
                   columns = map (\<lambda>name. (name, the (map_of (columns df) name))) names\<rparr>
      | missing # _ \<Rightarrow> Inl (KeyError missing))"

text \<open>
  \<^verbatim>\<open>df[name] = s\<close> replaces the column of that name where it stands, or appends a new
  column at the end.
\<close>

definition setitem :: "frame \<Rightarrow> string \<Rightarrow> series \<Rightarrow> frame" where
  "setitem df name s =
     (if name \<in> fst ` set (columns df)
      then df\<lparr>columns := map (\<lambda>(n, old). (n, if n = name then s else old)) (columns df)\<rparr>
      else df\<lparr>columns := columns df @ [(name, s)]\<rparr>)"

text \<open>
  \<^verbatim>\<open>s / k\<close> gives a float column and keeps a missing value missing; \<^verbatim>\<open>s == k\<close>
  gives a column of booleans, false where the value is missing; \<^verbatim>\<open>.astype(int)\<close>
  turns the booleans into 1 and 0.
\<close>

definition series_truediv :: "series \<Rightarrow> rat \<Rightarrow> series" where
  "series_truediv s k = \<lparr>dtype = NumpyFloat64, cells = map (map_option (\<lambda>v. v / k)) (cells s)\<rparr>"

definition series_eq :: "series \<Rightarrow> rat \<Rightarrow> bool list" where
  "series_eq s k = map (\<lambda>c. c = Some k) (cells s)"

definition astype_int :: "bool list \<Rightarrow> series" where
  "astype_int bs = \<lparr>dtype = NumpyInt64, cells = map (\<lambda>b. Some (if b then 1 else 0)) bs\<rparr>"

text \<open>
  \<^verbatim>\<open>s.astype('Int64')\<close> keeps the cells and raises \<^verbatim>\<open>TypeError\<close> when a value is
  not a whole number.
\<close>

definition astype_Int64 :: "series \<Rightarrow> exn + series" where
  "astype_Int64 s =
     (if list_all (\<lambda>c. case c of None \<Rightarrow> True | Some v \<Rightarrow> is_integer v) (cells s)
      then Inr \<lparr>dtype = NullableInt64, cells = cells s\<rparr>
      else Inl (TypeError ''cannot safely cast non-equivalent float64 to int64''))"

text \<open>
  The reductions skip the missing values. The median of the present values is the middle
  one of the sorted values, or the mean of the two middle ones when their number is even;
  a column with no value has no median.
\<close>

definition present :: "series \<Rightarrow> rat list" where
  "present s = concat (map (\<lambda>c. case c of None \<Rightarrow> [] | Some v \<Rightarrow> [v]) (cells s))"

definition series_median :: "series \<Rightarrow> cell" where
  "series_median s =
     (let vs = sort (present s); n = length vs
      in if n = 0 then None
         else if odd n then Some (vs ! (n div 2))
         else Some ((vs ! (n div 2 - 1) + vs ! (n div 2)) / 2))"

definition series_sum :: "series \<Rightarrow> rat" where
  "series_sum s = sum_list (present s)"

definition series_min :: "series \<Rightarrow> cell" where
  "series_min s = (case present s of [] \<Rightarrow> None | v # vs \<Rightarrow> Some (fold min vs v))"

definition series_max :: "series \<Rightarrow> cell" where
  "series_max s = (case present s of [] \<Rightarrow> None | v # vs \<Rightarrow> Some (fold max vs v))"

text \<open>\<^verbatim>\<open>df.median()\<close>: the median of every column, by name.\<close>

definition frame_median :: "frame \<Rightarrow> (string \<times> cell) list" where
  "frame_median df = map (\<lambda>(name, s). (name, series_median s)) (columns df)"

text \<open>\<^verbatim>\<open>df.isnull().sum()\<close>: the number of missing cells of every column.\<close>

definition isnull_sum :: "frame \<Rightarrow> (string \<times> nat) list" where
  "isnull_sum df = map (\<lambda>(name, s). (name, length (filter (\<lambda>c. c = None) (cells s)))) (columns df)"

text \<open>
  \<^verbatim>\<open>s.fillna(v)\<close> gives a new column in which every missing cell holds the fill value
  \<open>v\<close>. A missing fill value leaves the column as it is. A nullable integer column takes
  a whole number only: when it has a missing cell and the fill value is not whole, the
  assignment raises \<^verbatim>\<open>TypeError\<close>. An \<^verbatim>\<open>int64\<close> column has no missing cell.
\<close>

definition series_fillna :: "series \<Rightarrow> cell \<Rightarrow> exn + series" where
  "series_fillna s fill =
     (case fill of
        None \<Rightarrow> Inr s
      | Some v \<Rightarrow>
          if dtype s = NullableInt64 \<and> None \<in> set (cells s) \<and> \<not> is_integer v
          then Inl (TypeError ''Invalid value for dtype Int64'')
          else Inr (s\<lparr>cells := map (\<lambda>c. case c of None \<Rightarrow> Some v | Some x \<Rightarrow> Some x) (cells s)\<rparr>))"

text \<open>
  \<^verbatim>\<open>df.fillna(values)\<close> with one fill value per column name gives a new table: the
  columns are filled one after the other, and a column that has no entry in \<open>values\<close>
  stays as it is.
\<close>

fun fillna_columns :: "(string \<times> cell) list \<Rightarrow> (string \<times> series) list \<Rightarrow> exn + (string \<times> series) list" where
  "fillna_columns fills [] = Inr []"
| "fillna_columns fills ((name, s) # rest) =
     (case (case map_of fills name of None \<Rightarrow> Inr s | Some fill \<Rightarrow> series_fillna s fill) of
        Inl e \<Rightarrow> Inl e
      | Inr s' \<Rightarrow>
          (case fillna_columns fills rest of
             Inl e \<Rightarrow> Inl e
           | Inr rest' \<Rightarrow> Inr ((name, s') # rest')))"

definition fillna :: "frame \<Rightarrow> (string \<times> cell) list \<Rightarrow> exn + frame" where
  "fillna df fills =
     (case fillna_columns fills (columns df) of
        Inl e \<Rightarrow> Inl e
      | Inr cols \<Rightarrow> Inr (df\<lparr>columns := cols\<rparr>))"

text \<open>
  \<^verbatim>\<open>df.fillna(value)\<close> with one scalar for all columns. The argument is Python's:
  \<open>None\<close> is \<^verbatim>\<open>None\<close>, and with it (and no \<^verbatim>\<open>method\<close>) pandas raises
  \<^verbatim>\<open>ValueError\<close> before it looks at the table.
\<close>

definition fillna_value :: "frame \<Rightarrow> rat option \<Rightarrow> exn + frame" where
  "fillna_value df val =
     (case val of
        None \<Rightarrow> Inl (ValueError ''Must specify a fill 'value' or 'method'.'')
      | Some v \<Rightarrow> fillna df (map (\<lambda>(name, s). (name, Some v)) (columns df)))"

text \<open>\<^verbatim>\<open>df.values\<close>: the rows of the table, each the list of its cells.\<close>

definition frame_values :: "frame \<Rightarrow> cell list list" where
  "frame_values df = map (\<lambda>i. map (\<lambda>(name, s). cells s ! i) (columns df)) [0..<nrows df]"

section \<open>Reading and writing tables\<close>

text \<open>
  The strings that \<^verbatim>\<open>read_csv\<close> takes for a missing value by default; \<^verbatim>\<open>na_values\<close>
  adds to them.
\<close>

definition default_na_values :: "string list" where
  "default_na_values =
     ['''', ''#N/A'', ''#N/A N/A'', ''#NA'', ''-1.#IND'', ''-1.#QNAN'', ''-NaN'', ''-nan'',
      ''1.#IND'', ''1.#QNAN'', ''<NA>'', ''N/A'', ''NA'', ''NULL'', ''NaN'', ''None'', ''n/a'',
      ''nan'', ''null'']"

text \<open>
  A field is a missing value, or a numeral, or neither. With the cell comes whether the
  field is an integer literal.
\<close>

definition parse_field :: "string list \<Rightarrow> string \<Rightarrow> (bool \<times> cell) option" where
  "parse_field na_values field =
     (if field \<in> set na_values then Some (False, None)
      else (case parse_number field of
              None \<Rightarrow> None
            | Some (is_int, v) \<Rightarrow> Some (is_int, Some v)))"

text \<open>
  A column of integer literals and nothing else is an \<^verbatim>\<open>int64\<close> column; any other
  column of numbers is a \<^verbatim>\<open>float64\<close> column.
\<close>

definition infer_series :: "(bool \<times> cell) list \<Rightarrow> series" where
  "infer_series parsed =
     \<lparr>dtype = (if parsed \<noteq> [] \<and> list_all fst parsed then NumpyInt64 else NumpyFloat64),
      cells = map snd parsed\<rparr>"

text \<open>
  The table of the rows of fields, under the given column names. A row with fewer fields
  than there are names is filled up with missing values. Two cases are outside what the
  model covers, and the model stops with \<^verbatim>\<open>ParserError\<close> in both: a row with more fields
  than names (pandas raises this error for every row but the first), and a field that is
  neither a missing value nor a numeral (pandas would load its column as text).
\<close>

definition read_table :: "string list \<Rightarrow> string list \<Rightarrow> string list list \<Rightarrow> exn + frame" where
  "read_table names na_values rows =
     (let n = length names;
          fitted = map (\<lambda>row. row @ replicate (n - length row) []) rows;
          parsed = map (map (parse_field na_values)) fitted
      in if list_ex (\<lambda>row. n < length row) rows
         then Inl (ParserError ''Error tokenizing data'')
         else if list_ex (\<lambda>row. None \<in> set row) parsed
         then Inl (ParserError ''not a number'')
         else Inr \<lparr>nrows = length rows,
                   columns = map (\<lambda>j. (names ! j, infer_series (map (\<lambda>row. the (row ! j)) parsed)))
                               [0..<n]\<rparr>)"

text \<open>
  \<^verbatim>\<open>pd.read_csv(path, sep=r'\s+', header=None, names=names, na_values=na)\<close>: the fields
  of a line are separated by runs of spaces and tabs, and a line with no field is skipped.
\<close>

definition fields_whitespace :: "string \<Rightarrow> string list" where
  "fields_whitespace line =
     filter (\<lambda>field. field \<noteq> []) (split_where (\<lambda>c. c = CHR '' '' \<or> c = CHR 0x09) line)"

definition read_csv_whitespace :: "string list \<Rightarrow> string list \<Rightarrow> string \<Rightarrow> exn + frame" where
  "read_csv_whitespace names na text =
     read_table names (na @ default_na_values)
       (filter (\<lambda>row. row \<noteq> []) (map fields_whitespace (splitlines text)))"

text \<open>
  \<^verbatim>\<open>pd.read_csv(path)\<close>: the first line that is not empty gives the column names, the
  fields are separated by commas, and empty lines are skipped. A file with no line raises
  \<^verbatim>\<open>EmptyDataError\<close>, which is a \<^verbatim>\<open>ValueError\<close>.
\<close>

definition read_csv :: "string \<Rightarrow> exn + frame" where
  "read_csv text =
     (case filter (\<lambda>line. line \<noteq> []) (splitlines text) of
        [] \<Rightarrow> Inl (ValueError ''No columns to parse from file'')
      | header # lines \<Rightarrow>
          read_table (str_split (CHR '','') header) default_na_values
            (map (str_split (CHR '','')) lines))"

text \<open>
  \<^verbatim>\<open>df.to_csv(path, index=False)\<close>: a line of the column names, then one line for each
  row; the fields are joined by commas, a missing value is the empty field, and every line
  ends with a line feed.
\<close>

definition repr_cell :: "dtype \<Rightarrow> cell \<Rightarrow> string" where
  "repr_cell dt c =
     (case c of
        None \<Rightarrow> []
      | Some v \<Rightarrow> if dt = NumpyFloat64 then float_repr v else int_repr v)"

definition csv_lines :: "frame \<Rightarrow> string list" where
  "csv_lines df =
     str_join (CHR '','') (map fst (columns df))
     # map (\<lambda>i. str_join (CHR '','') (map (\<lambda>(name, s). repr_cell (dtype s) (cells s ! i)) (columns df)))
         [0..<nrows df]"

definition to_csv :: "frame \<Rightarrow> string" where
  "to_csv df = concat (map (\<lambda>line. line @ [LF]) (csv_lines df))"

text \<open>
  The file system maps a path to the text of the file. Opening a path that is not there
  raises \<^verbatim>\<open>FileNotFoundError\<close>.
\<close>

type_synonym files = "string \<Rightarrow> string option"

definition open_read :: "files \<Rightarrow> string \<Rightarrow> exn + string" where
  "open_read fs path =
     (case fs path of
        None \<Rightarrow> Inl (FileNotFoundError path)
      | Some text \<Rightarrow> Inr text)"

text \<open>
  What a script prints: each line is the text of the \<^verbatim>\<open>print\<close> statement as the source
  has it, with the values that it interpolates. How a value is formatted is not modelled.
\<close>

datatype arg =
    AStr string
  | ANat nat
  | ACell cell
  | ARow "cell list"
  | ACounts "(string \<times> nat) list"
  | AValueCounts "cell list"
  | AExn exn
  | ANames "string list"

type_synonym line = "string \<times> arg list"

text \<open>Sequencing of computations that may raise: the first exception ends the sequence.\<close>

definition and_then :: "exn + 'a \<Rightarrow> ('a \<Rightarrow> exn + 'b) \<Rightarrow> exn + 'b" where
  "and_then r f = (case r of Inl e \<Rightarrow> Inl e | Inr x \<Rightarrow> f x)"

section \<open>The converter: \<^verbatim>\<open>convert_pbc_to_csv.py\<close>\<close>

definition column_names :: "string list" where
  "column_names =
     [''id'', ''futime'', ''status'', ''drug'', ''age'', ''sex'', ''ascites'', ''hepato'',
      ''spiders'', ''edema'', ''bili'', ''chol'', ''albumin'', ''copper'', ''alk_phos'',
      ''sgot'', ''trig'', ''platelet'', ''protime'', ''stage'']"

text \<open>
  The derived columns (lines 49 to 60 of \<^verbatim>\<open>convert_pbc_to_csv\<close>), on a copy of the
  table:
  \<^verbatim>\<open>df_ml['age_years'] = df_ml['age'] / 365.25\<close>,
  \<^verbatim>\<open>df_ml['death_event'] = (df_ml['status'] == 2).astype(int)\<close>,
  \<^verbatim>\<open>df_ml['male'] = (df_ml['sex'] == 0).astype(int)\<close>,
  \<^verbatim>\<open>df_ml['female'] = (df_ml['sex'] == 1).astype(int)\<close>,
  \<^verbatim>\<open>df_ml['drug_treatment'] = (df_ml['drug'] == 1).astype(int)\<close>.
\<close>

definition ml_features :: "frame \<Rightarrow> exn + frame" where
  "ml_features df =
     and_then (getitem df ''age'') (\<lambda>age.
       let df1 = setitem df ''age_years'' (series_truediv age (36525 / 100)) in
     and_then (getitem df1 ''status'') (\<lambda>status.
       let df2 = setitem df1 ''death_event'' (astype_int (series_eq status 2)) in
     and_then (getitem df2 ''sex'') (\<lambda>sex.
       let df3 = setitem df2 ''male'' (astype_int (series_eq sex 0)) in
     and_then (getitem df3 ''sex'') (\<lambda>sex'.
       let df4 = setitem df3 ''female'' (astype_int (series_eq sex' 1)) in
     and_then (getitem df4 ''drug'') (\<lambda>drug.
       Inr (setitem df4 ''drug_treatment'' (astype_int (series_eq drug 1))))))))"

text \<open>
  \<^verbatim>\<open>convert_pbc_to_csv()\<close> reads \<^verbatim>\<open>pbc.dat.txt\<close>, writes \<^verbatim>\<open>pbc_data.csv\<close> and
  \<^verbatim>\<open>pbc_ml_ready.csv\<close>, and returns the table that it read. The result is the table or
  the exception, what has been printed, and the file system. The function catches
  nothing: an exception ends it where it is raised.
\<close>

definition convert_pbc_to_csv :: "files \<Rightarrow> (exn + frame) \<times> line list \<times> files" where
  "convert_pbc_to_csv fs =
     (let out0 = [(''Reading pbc.dat.txt...'', [])] in
      case and_then (open_read fs ''pbc.dat.txt'') (read_csv_whitespace column_names [''.'']) of
        Inl e \<Rightarrow> (Inl e, out0, fs)
      | Inr df \<Rightarrow>
          let out1 = out0 @
                [(''Loaded {len(df)} patients with {len(df.columns)} features'',
                    [ANat (nrows df), ANat (length (columns df))]),
                 (''Missing values per column:'', []),
                 (''{df.isnull().sum()}'', [ACounts (isnull_sum df)])];
              fs1 = fs(''pbc_data.csv'' \<mapsto> to_csv df);
              out2 = out1 @ [(''Saved to {output_file}'', [AStr ''pbc_data.csv''])]
          in case ml_features df of
               Inl e \<Rightarrow> (Inl e, out2, fs1)
             | Inr df_ml \<Rightarrow>
                 (Inr df,
                  out2 @ [(''Saved ML-ready version to {ml_output_file}'', [AStr ''pbc_ml_ready.csv''])],
                  fs1(''pbc_ml_ready.csv'' \<mapsto> to_csv df_ml)))"

section \<open>The loader of the CSV: \<^verbatim>\<open>load_pbc_data.py\<close>\<close>

definition categorical_cols :: "string list" where
  "categorical_cols =
     [''drug'', ''sex'', ''ascites'', ''hepato'', ''spiders'', ''stage'',
      ''death_event'', ''male'', ''female'', ''drug_treatment'']"

text \<open>
  \<^verbatim>\<open>for col in categorical_cols: if col in df.columns: df[col] = df[col].astype('Int64')\<close>
\<close>

fun coerce_categorical :: "string list \<Rightarrow> frame \<Rightarrow> exn + frame" where
  "coerce_categorical [] df = Inr df"
| "coerce_categorical (col # rest) df =
     (if col \<in> fst ` set (columns df)
      then and_then (getitem df col) (\<lambda>s.
           and_then (astype_Int64 s) (\<lambda>s'.
           coerce_categorical rest (setitem df col s')))
      else coerce_categorical rest df)"

definition load_pbc_data :: "files \<Rightarrow> string \<Rightarrow> exn + frame" where
  "load_pbc_data fs csv_path =
     and_then (open_read fs csv_path) (\<lambda>text.
     and_then (read_csv text) (\<lambda>df.
     coerce_categorical categorical_cols df))"

text \<open>
  The tables are Python objects, and the functions below get a reference to one. The
  store holds the tables that exist; a reference is a position in it, and a new table
  takes the next free position. No caller can pass a reference that is not in the store;
  the model answers such a reference with an exception.
\<close>

type_synonym addr = nat

type_synonym store = "frame list"

definition deref :: "store \<Rightarrow> addr \<Rightarrow> exn + frame" where
  "deref h a = (if a < length h then Inr (h ! a) else Inl (OtherException ''no such object''))"

definition alloc :: "store \<Rightarrow> frame \<Rightarrow> addr \<times> store" where
  "alloc h df = (length h, h @ [df])"

definition feature_cols :: "string list" where
  "feature_cols =
     [''age_years'', ''male'', ''ascites'', ''hepato'', ''spiders'', ''edema'',
      ''bili'', ''chol'', ''albumin'', ''copper'', ''alk_phos'', ''sgot'',
      ''trig'', ''platelet'', ''protime'', ''stage'', ''drug_treatment'']"

text \<open>
  \<^verbatim>\<open>get_survival_data(df)\<close>. \<^verbatim>\<open>df[feature_cols]\<close> is a new table, \<^verbatim>\<open>.copy()\<close>
  another one, and \<^verbatim>\<open>X.fillna(X.median())\<close> a third; the name \<^verbatim>\<open>X\<close> is bound to each
  in turn. The result is the two vectors and the reference to the last table, or the
  exception, and the store.
\<close>

definition get_survival_data ::
  "store \<Rightarrow> addr \<Rightarrow> (exn + cell list \<times> cell list \<times> addr) \<times> store" where
  "get_survival_data h df =
     (case deref h df of
        Inl e \<Rightarrow> (Inl e, h)
      | Inr d \<Rightarrow>
     (case getitem d ''futime'' of
        Inl e \<Rightarrow> (Inl e, h)
      | Inr T \<Rightarrow>
     (case getitem d ''death_event'' of
        Inl e \<Rightarrow> (Inl e, h)
      | Inr E \<Rightarrow>
     (case getitem_list d feature_cols of
        Inl e \<Rightarrow> (Inl e, h)
      | Inr selected \<Rightarrow>
          let (x0, h0) = alloc h selected;
              (x1, h1) = alloc h0 (h0 ! x0);
              medians = frame_median (h1 ! x1)
          in (case fillna (h1 ! x1) medians of
                Inl e \<Rightarrow> (Inl e, h1)
              | Inr filled \<Rightarrow>
                  let (x2, h2) = alloc h1 filled
                  in (Inr (cells T, cells E, x2), h2))))))"

text \<open>\<^verbatim>\<open>get_feature_descriptions()\<close> takes no argument and returns a fixed dictionary.\<close>

definition get_feature_descriptions :: "(string \<times> string) list" where
  "get_feature_descriptions =
     [(''futime'', ''Follow-up time in days (survival outcome)''),
      (''death_event'', ''Death indicator (1=died, 0=alive/transplant)''),
      (''age_years'', ''Patient age in years''),
      (''male'', ''Male gender (1=male, 0=female)''),
      (''ascites'', ''Ascites present (fluid in abdomen)''),
      (''hepato'', ''Hepatomegaly present (enlarged liver)''),
      (''spiders'', ''Spider angiomata present (vascular lesions)''),
      (''edema'', ''Edema severity (0=none, 0.5=moderate, 1=severe)''),
      (''bili'', ''Serum bilirubin mg/dl (liver function)''),
      (''chol'', ''Serum cholesterol mg/dl''),
      (''albumin'', ''Serum albumin gm/dl (liver synthetic function)''),
      (''copper'', ''24-hour urine copper ug/day''),
      (''alk_phos'', ''Alkaline phosphatase U/liter (bile duct function)''),
      (''sgot'', ''SGOT/AST U/ml (liver enzyme)''),
      (''trig'', ''Triglycerides mg/dl''),
      (''platelet'', ''Platelet count per cubic ml/1000''),
      (''protime'', ''Prothrombin time seconds (clotting function)''),
      (''stage'', ''Histologic disease stage (1-4)''),
      (''drug_treatment'', ''D-penicillamine treatment (1=yes, 0=placebo)'')]"

text \<open>
  \<^verbatim>\<open>print_dataset_summary(df)\<close> reads columns of the table and prints; a column that is
  not there raises \<^verbatim>\<open>KeyError\<close> after the lines before it have been printed. The result
  is the exception, if any, what has been printed, and the store.
\<close>

definition count_true :: "bool list \<Rightarrow> nat" where
  "count_true bs = length (filter (\<lambda>b. b) bs)"

definition print_dataset_summary ::
  "store \<Rightarrow> addr \<Rightarrow> line list \<Rightarrow> exn option \<times> line list \<times> store" where
  "print_dataset_summary h df out =
     (case deref h df of
        Inl e \<Rightarrow> (Some e, out, h)
      | Inr d \<Rightarrow>
     (let out1 = out @ [(LF # ''PBC Dataset Summary:'', []),
                        (''Total patients: {len(df)}'', [ANat (nrows d)])] in
      case getitem d ''death_event'' of
        Inl e \<Rightarrow> (Some e, out1, h)
      | Inr death_event \<Rightarrow>
     (let out2 = out1 @ [(''Deaths: {df['death_event'].sum()}'', [ACell (Some (series_sum death_event))])] in
      case getitem d ''status'' of
        Inl e \<Rightarrow> (Some e, out2, h)
      | Inr status \<Rightarrow>
     (let out3 = out2 @
            [(''Transplants: {(df['status'] == 1).sum()}'', [ANat (count_true (series_eq status 1))]),
             (''Alive: {(df['status'] == 0).sum()}'', [ANat (count_true (series_eq status 0))])] in
      case getitem d ''futime'' of
        Inl e \<Rightarrow> (Some e, out3, h)
      | Inr futime \<Rightarrow>
     (let out4 = out3 @
            [(''Median survival time: {df['futime'].median():.0f} days'', [ACell (series_median futime)])] in
      case getitem d ''age_years'' of
        Inl e \<Rightarrow> (Some e, out4, h)
      | Inr age_years \<Rightarrow>
          (None,
           out4 @
            [(''Age range: {df['age_years'].min():.1f} - {df['age_years'].max():.1f} years'',
                [ACell (series_min age_years), ACell (series_max age_years)]),
             (''Missing values per column:'', []),
             (''{df.isnull().sum()[df.isnull().sum() > 0]}'',
                [ACounts (filter (\<lambda>(name, n). 0 < n) (isnull_sum d))])],
           h))))))"

section \<open>The loader of the database: \<^verbatim>\<open>extract_pbc_to_postgres.py\<close>\<close>

text \<open>
  \<^verbatim>\<open>read_pbc_data(file_path)\<close>:
  \<^verbatim>\<open>pd.read_csv(file_path, sep=r'\s+', header=None, names=column_names, na_values='.')\<close>.
\<close>

definition read_pbc_data :: "files \<Rightarrow> string \<Rightarrow> exn + frame" where
  "read_pbc_data fs file_path =
     and_then (open_read fs file_path) (read_csv_whitespace column_names [''.''])"

subsection \<open>The driver and the run of the script\<close>

text \<open>
  The loader talks to PostgreSQL through psycopg2. The model keeps the calls that have
  reached the driver, in order. Whether a call succeeds is not the script's decision: the
  world says, for the calls made so far and the next one, whether the next one raises and
  what, and what \<^verbatim>\<open>fetchone\<close> returns. Closing a cursor or a connection does not raise.
\<close>

datatype event =
    Connect "(string \<times> string) list"
  | OpenCursor
  | Execute string
  | ExecuteValues string "cell list list"
  | Fetchone
  | Commit
  | CloseCursor
  | CloseConn

record world =
  files :: files
  environ :: "string \<Rightarrow> string option"
  driver :: "event list \<Rightarrow> event \<Rightarrow> exn option"
  fetched :: "event list \<Rightarrow> cell list option"

text \<open>
  The state of a run of \<^verbatim>\<open>main\<close>: what has been printed, the calls that have reached the
  driver, and whether the local names \<^verbatim>\<open>conn\<close> and \<^verbatim>\<open>cursor\<close> are bound.
\<close>

record run =
  stdout :: "line list"
  trace :: "event list"
  conn :: bool
  cursor :: bool

type_synonym 'a step = "run \<Rightarrow> (exn + 'a) \<times> run"

definition then_do :: "'a step \<Rightarrow> ('a \<Rightarrow> 'b step) \<Rightarrow> 'b step" where
  "then_do m f r = (case m r of (Inl e, r') \<Rightarrow> (Inl e, r') | (Inr x, r') \<Rightarrow> f x r')"

definition print :: "string \<Rightarrow> arg list \<Rightarrow> unit step" where
  "print template args r = (Inr (), r\<lparr>stdout := stdout r @ [(template, args)]\<rparr>)"

definition lift :: "exn + 'a \<Rightarrow> 'a step" where
  "lift x r = (x, r)"

definition call :: "world \<Rightarrow> event \<Rightarrow> unit step" where
  "call w ev r =
     (case driver w (trace r) ev of
        Some e \<Rightarrow> (Inl e, r)
      | None \<Rightarrow> (Inr (), r\<lparr>trace := trace r @ [ev]\<rparr>))"

subsection \<open>\<^verbatim>\<open>load_schema_from_file\<close>\<close>

text \<open>
  \<^verbatim>\<open>statements = [stmt.strip() for stmt in schema_sql.split(';') if stmt.strip()]\<close>
\<close>

definition schema_statements :: "string \<Rightarrow> string list" where
  "schema_statements schema_sql =
     map str_strip (filter (\<lambda>stmt. str_strip stmt \<noteq> []) (str_split (CHR '';'') schema_sql))"

text \<open>
  \<^verbatim>\<open>for statement in statements: cursor.execute(statement)\<close>. An exception leaves the
  loop; the statements sent before it stay sent.
\<close>

fun execute_each :: "world \<Rightarrow> string list \<Rightarrow> unit step" where
  "execute_each w [] = lift (Inr ())"
| "execute_each w (statement # rest) =
     then_do (call w (Execute statement)) (\<lambda>_. execute_each w rest)"

definition load_schema_from_file :: "world \<Rightarrow> string \<Rightarrow> unit step" where
  "load_schema_from_file w schema_file =
     then_do (lift (open_read (files w) schema_file)) (\<lambda>schema_sql.
     execute_each w (schema_statements schema_sql))"

subsection \<open>\<^verbatim>\<open>insert_pbc_data\<close>\<close>

definition insert_sql :: string where
  "insert_sql = str_join LF
     ['''',
      ''    INSERT INTO pbc_patients ('',
      ''        id, futime, status, drug, age, sex, ascites, hepato, spiders, '',
      ''        edema, bili, chol, albumin, copper, alk_phos, sgot, trig, '',
      ''        platelet, protime, stage'',
      ''    ) VALUES %s'',
      ''    ON CONFLICT (id) DO UPDATE SET'',
      ''        futime = EXCLUDED.futime,'',
      ''        status = EXCLUDED.status,'',
      ''        drug = EXCLUDED.drug,'',
      ''        age = EXCLUDED.age,'',
      ''        sex = EXCLUDED.sex,'',
      ''        ascites = EXCLUDED.ascites,'',
      ''        hepato = EXCLUDED.hepato,'',
      ''        spiders = EXCLUDED.spiders,'',
      ''        edema = EXCLUDED.edema,'',
      ''        bili = EXCLUDED.bili,'',
      ''        chol = EXCLUDED.chol,'',
      ''        albumin = EXCLUDED.albumin,'',
      ''        copper = EXCLUDED.copper,'',
      ''        alk_phos = EXCLUDED.alk_phos,'',
      ''        sgot = EXCLUDED.sgot,'',
      ''        trig = EXCLUDED.trig,'',
      ''        platelet = EXCLUDED.platelet,'',
      ''        protime = EXCLUDED.protime,'',
      ''        stage = EXCLUDED.stage;'',
      ''    '']"

text \<open>
  \<^verbatim>\<open>execute_values(cursor, insert_sql, values)\<close> sends the rows in pages of 100 (its
  default page size), one statement for each page. \<open>paginate k\<close> cuts a list into pages of
  \<open>k + 1\<close>.
\<close>

fun paginate :: "nat \<Rightarrow> 'a list \<Rightarrow> 'a list list" where
  "paginate k [] = []"
| "paginate k (x # xs) = (x # take k xs) # paginate k (drop k xs)"

fun execute_pages :: "world \<Rightarrow> string \<Rightarrow> cell list list list \<Rightarrow> unit step" where
  "execute_pages w sql [] = lift (Inr ())"
| "execute_pages w sql (page # rest) =
     then_do (call w (ExecuteValues sql page)) (\<lambda>_. execute_pages w sql rest)"

definition execute_values :: "world \<Rightarrow> string \<Rightarrow> cell list list \<Rightarrow> unit step" where
  "execute_values w sql argslist = execute_pages w sql (paginate 99 argslist)"

text \<open>
  \<^verbatim>\<open>df_clean = df.fillna(None)\<close>, then
  \<^verbatim>\<open>values = [tuple(row) for row in df_clean.values]\<close> and
  \<^verbatim>\<open>execute_values(cursor, insert_sql, values)\<close>.
\<close>

definition insert_pbc_data :: "world \<Rightarrow> frame \<Rightarrow> unit step" where
  "insert_pbc_data w df =
     then_do (lift (fillna_value df None)) (\<lambda>df_clean.
     execute_values w insert_sql (frame_values df_clean))"

subsection \<open>The table \<^verbatim>\<open>pbc_patients\<close> and the statement of \<^verbatim>\<open>insert_sql\<close>\<close>

text \<open>
  A row of \<^verbatim>\<open>pbc_patients\<close> has the twenty columns that the statement names; \<^verbatim>\<open>id\<close>
  is the key, the other columns may be \<^verbatim>\<open>NULL\<close>. The file \<^verbatim>\<open>pbc_schema.sql\<close> that
  declares the table is not part of the sources, so the types of the columns are not
  modelled: a column takes any number.
\<close>

record patient =
  patient_id :: rat
  futime :: cell
  status :: cell
  drug :: cell
  age :: cell
  sex :: cell
  ascites :: cell
  hepato :: cell
  spiders :: cell
  edema :: cell
  bili :: cell
  chol :: cell
  albumin :: cell
  copper :: cell
  alk_phos :: cell
  sgot :: cell
  trig :: cell
  platelet :: cell
  protime :: cell
  stage :: cell

text \<open>A tuple of values is a row when it has twenty values and the first is not \<^verbatim>\<open>NULL\<close>.\<close>

definition patient_of_tuple :: "cell list \<Rightarrow> patient option" where
  "patient_of_tuple t =
     (if length t = 20
      then (case t ! 0 of
              None \<Rightarrow> None
            | Some key \<Rightarrow>
                Some \<lparr>patient_id = key, futime = t ! 1, status = t ! 2, drug = t ! 3,
                      age = t ! 4, sex = t ! 5, ascites = t ! 6, hepato = t ! 7, spiders = t ! 8,
                      edema = t ! 9, bili = t ! 10, chol = t ! 11, albumin = t ! 12,
                      copper = t ! 13, alk_phos = t ! 14, sgot = t ! 15, trig = t ! 16,
                      platelet = t ! 17, protime = t ! 18, stage = t ! 19\<rparr>)
      else None)"

text \<open>
  \<^verbatim>\<open>INSERT ... ON CONFLICT (id) DO UPDATE SET futime = EXCLUDED.futime, ...\<close> for one
  proposed row: the row that has the same \<^verbatim>\<open>id\<close> gets the columns that the
  \<^verbatim>\<open>SET\<close> clause lists from the proposed row; when there is none, the proposed row is
  inserted.
\<close>

fun upsert :: "patient \<Rightarrow> patient list \<Rightarrow> patient list" where
  "upsert excluded [] = [excluded]"
| "upsert excluded (row # rest) =
     (if patient_id row = patient_id excluded
      then row\<lparr>futime := futime excluded, status := status excluded, drug := drug excluded,
               age := age excluded, sex := sex excluded, ascites := ascites excluded,
               hepato := hepato excluded, spiders := spiders excluded, edema := edema excluded,
               bili := bili excluded, chol := chol excluded, albumin := albumin excluded,
               copper := copper excluded, alk_phos := alk_phos excluded, sgot := sgot excluded,
               trig := trig excluded, platelet := platelet excluded,
               protime := protime excluded, stage := stage excluded\<rparr> # rest
      else row # upsert excluded rest)"

text \<open>
  One statement with the tuples of a page. PostgreSQL refuses a statement that proposes
  two rows with the same key (\<^verbatim>\<open>ON CONFLICT DO UPDATE command cannot affect row a second
  time\<close>) and a tuple that is not a row; otherwise the rows are taken in order.
\<close>

definition insert_on_conflict :: "cell list list \<Rightarrow> patient list \<Rightarrow> exn + patient list" where
  "insert_on_conflict tuples table =
     (case those (map patient_of_tuple tuples) of
        None \<Rightarrow> Inl (Psycopg2Error ''null value or wrong number of columns'')
      | Some rows \<Rightarrow>
          if distinct (map patient_id rows)
          then Inr (fold upsert rows table)
          else Inl (Psycopg2Error ''ON CONFLICT DO UPDATE command cannot affect row a second time''))"

subsection \<open>\<^verbatim>\<open>main\<close>\<close>

definition getenv :: "world \<Rightarrow> string \<Rightarrow> string \<Rightarrow> string" where
  "getenv w name fallback = (case environ w name of None \<Rightarrow> fallback | Some v \<Rightarrow> v)"

definition db_params :: "world \<Rightarrow> (string \<times> string) list" where
  "db_params w =
     [(''host'', getenv w ''POSTGRES_HOST'' ''localhost''),
      (''port'', getenv w ''POSTGRES_PORT'' ''5432''),
      (''database'', getenv w ''POSTGRES_DB'' ''liver_transplant''),
      (''user'', getenv w ''POSTGRES_USER'' ''postgres''),
      (''password'', getenv w ''POSTGRES_PASSWORD'' ''password'')]"

definition pbc_file :: string where
  "pbc_file = ''pbc.dat.txt''"

definition schema_file :: string where
  "schema_file = ''pbc_schema.sql''"

definition stats_sql :: string where
  "stats_sql = str_join LF
     ['''',
      ''        SELECT '',
      ''            COUNT(*) as total_patients,'',
      ''            COUNT(CASE WHEN status = 2 THEN 1 END) as deaths,'',
      ''            COUNT(CASE WHEN status = 1 THEN 1 END) as transplants,'',
      ''            COUNT(CASE WHEN status = 0 THEN 1 END) as alive,'',
      ''            ROUND(AVG(futime)) as avg_followup_days,'',
      ''            ROUND(AVG(bili), 2) as avg_bilirubin'',
      ''        FROM pbc_patients'',
      ''        '']"

text \<open>
  \<^verbatim>\<open>cursor.fetchone()\<close> gives a tuple or \<^verbatim>\<open>None\<close>; \<^verbatim>\<open>row[i]\<close> raises
  \<^verbatim>\<open>TypeError\<close> on \<^verbatim>\<open>None\<close> and \<^verbatim>\<open>IndexError\<close> beyond the tuple.
\<close>

definition fetchone :: "world \<Rightarrow> (cell list option) step" where
  "fetchone w r =
     (case driver w (trace r) Fetchone of
        Some e \<Rightarrow> (Inl e, r)
      | None \<Rightarrow> (Inr (fetched w (trace r)), r\<lparr>trace := trace r @ [Fetchone]\<rparr>))"

definition subscript :: "cell list option \<Rightarrow> nat \<Rightarrow> exn + cell" where
  "subscript row i =
     (case row of
        None \<Rightarrow> Inl (TypeError ''NoneType object is not subscriptable'')
      | Some t \<Rightarrow> if i < length t then Inr (t ! i) else Inl (IndexError ''tuple index out of range''))"

text \<open>The assignments \<^verbatim>\<open>conn = ...\<close> and \<^verbatim>\<open>cursor = ...\<close> bind the local names.\<close>

definition bind_conn :: "unit step" where
  "bind_conn r = (Inr (), r\<lparr>conn := True\<rparr>)"

definition bind_cursor :: "unit step" where
  "bind_cursor r = (Inr (), r\<lparr>cursor := True\<rparr>)"

text \<open>The body of the \<^verbatim>\<open>try\<close>, in the sections that its comments name.\<close>

definition read_section :: "world \<Rightarrow> frame step" where
  "read_section w =
     then_do (print ''Reading PBC data from {pbc_file}...'' [AStr pbc_file]) (\<lambda>_.
     then_do (lift (read_pbc_data (files w) pbc_file)) (\<lambda>df.
     then_do (print ''Loaded {len(df)} records with {len(df.columns)} columns''
                [ANat (nrows df), ANat (length (columns df))]) (\<lambda>_.
     then_do (lift (getitem df ''futime'')) (\<lambda>futime.
     then_do (print ''Survival time range: {df['futime'].min()}-{df['futime'].max()} days''
                [ACell (series_min futime), ACell (series_max futime)]) (\<lambda>_.
     then_do (lift (getitem df ''status'')) (\<lambda>status.
     then_do (print ''Status distribution: {df['status'].value_counts().to_dict()}''
                [AValueCounts (cells status)]) (\<lambda>_.
     lift (Inr df))))))))"

definition connect_section :: "world \<Rightarrow> unit step" where
  "connect_section w =
     then_do (print ''Connecting to PostgreSQL at {db_params['host']}:{db_params['port']}...''
                [AStr (getenv w ''POSTGRES_HOST'' ''localhost''),
                 AStr (getenv w ''POSTGRES_PORT'' ''5432'')]) (\<lambda>_.
     then_do (call w (Connect (db_params w))) (\<lambda>_.
     then_do bind_conn (\<lambda>_.
     then_do (call w OpenCursor) (\<lambda>_.
     bind_cursor))))"

definition load_section :: "world \<Rightarrow> frame \<Rightarrow> unit step" where
  "load_section w df =
     then_do (print ''Loading database schema from {schema_file}...'' [AStr schema_file]) (\<lambda>_.
     then_do (load_schema_from_file w schema_file) (\<lambda>_.
     then_do (print ''Inserting PBC data...'' []) (\<lambda>_.
     then_do (insert_pbc_data w df) (\<lambda>_.
     then_do (call w Commit) (\<lambda>_.
     print ''Successfully inserted {len(df)} records into pbc_patients table''
       [ANat (nrows df)])))))"

definition verify_section :: "world \<Rightarrow> unit step" where
  "verify_section w =
     then_do (call w (Execute ''SELECT COUNT(*) FROM pbc_patients'')) (\<lambda>_.
     then_do (fetchone w) (\<lambda>row.
     then_do (lift (subscript row 0)) (\<lambda>count.
     then_do (print ''Total records in database: {count}'' [ACell count]) (\<lambda>_.
     then_do (call w (Execute stats_sql)) (\<lambda>_.
     then_do (fetchone w) (\<lambda>stats.
     then_do (lift (subscript stats 0)) (\<lambda>s0.
     then_do (lift (subscript stats 1)) (\<lambda>s1.
     then_do (lift (subscript stats 2)) (\<lambda>s2.
     then_do (lift (subscript stats 3)) (\<lambda>s3.
     then_do (print ''Dataset summary: {stats[0]} patients, {stats[1]} deaths, {stats[2]} transplants, {stats[3]} alive''
                [ACell s0, ACell s1, ACell s2, ACell s3]) (\<lambda>_.
     then_do (lift (subscript stats 4)) (\<lambda>s4.
     then_do (lift (subscript stats 5)) (\<lambda>s5.
     print ''Average follow-up: {stats[4]} days, Average bilirubin: {stats[5]} mg/dl''
       [ACell s4, ACell s5])))))))))))))"

definition main_try :: "world \<Rightarrow> unit step" where
  "main_try w =
     then_do (read_section w) (\<lambda>df.
     then_do (connect_section w) (\<lambda>_.
     then_do (load_section w df) (\<lambda>_.
     verify_section w)))"

text \<open>
  The handlers, in the order of the source: \<^verbatim>\<open>except FileNotFoundError\<close>,
  \<^verbatim>\<open>except psycopg2.Error\<close>, \<^verbatim>\<open>except Exception\<close>. An exception that none of them
  catches goes on to the caller. The result is the exception that leaves, if any.
\<close>

definition handlers :: "exn \<Rightarrow> run \<Rightarrow> exn option \<times> run" where
  "handlers e r =
     (case e of
        FileNotFoundError _ \<Rightarrow>
          (None, r\<lparr>stdout := stdout r @
             [(''Error: File not found - {e}'', [AExn e]),
              (''Make sure pbc.dat.txt and pbc_schema.sql are in the current directory'', [])]\<rparr>)
      | Psycopg2Error _ \<Rightarrow>
          (None, r\<lparr>stdout := stdout r @
             [(''Database error: {e}'', [AExn e]),
              (''Check PostgreSQL connection parameters and ensure database exists'', [])]\<rparr>)
      | KeyboardInterrupt \<Rightarrow> (Some e, r)
      | _ \<Rightarrow> (None, r\<lparr>stdout := stdout r @ [(''Unexpected error: {e}'', [AExn e])]\<rparr>))"

text \<open>
  \<^verbatim>\<open>cursor.close()\<close> and \<^verbatim>\<open>conn.close()\<close>. Using a local name that has not been
  bound raises \<^verbatim>\<open>UnboundLocalError\<close>.
\<close>

definition close_cursor :: "unit step" where
  "close_cursor r =
     (if cursor r then (Inr (), r\<lparr>trace := trace r @ [CloseCursor]\<rparr>)
      else (Inl (UnboundLocalError ''cursor''), r))"

definition close_conn :: "unit step" where
  "close_conn r =
     (if conn r then (Inr (), r\<lparr>trace := trace r @ [CloseConn]\<rparr>)
      else (Inl (UnboundLocalError ''conn''), r))"

text \<open>
  \<^verbatim>\<open>finally: if 'cursor' in locals(): cursor.close()\<close> and
  \<^verbatim>\<open>if 'conn' in locals(): conn.close()\<close>.
\<close>

definition finally_block :: "unit step" where
  "finally_block =
     then_do (\<lambda>r. if cursor r then close_cursor r else (Inr (), r)) (\<lambda>_ r.
     if conn r then close_conn r else (Inr (), r))"

definition run0 :: run where
  "run0 = \<lparr>stdout = [], trace = [], conn = False, cursor = False\<rparr>"

text \<open>
  \<^verbatim>\<open>main()\<close>: the body, then the handler that matches if the body raised, then the
  \<^verbatim>\<open>finally\<close> block on every path. The result is the exception that leaves \<^verbatim>\<open>main\<close>,
  if any, and the final state; an exception raised in the \<^verbatim>\<open>finally\<close> block would
  leave in place of any other.
\<close>

definition main :: "world \<Rightarrow> exn option \<times> run" where
  "main w =
     (case main_try w run0 of (res, r) \<Rightarrow>
      (case (case res of Inr _ \<Rightarrow> (None, r) | Inl e \<Rightarrow> handlers e r) of (leaving, r1) \<Rightarrow>
       (case finally_block r1 of
          (Inl e', r2) \<Rightarrow> (Some e', r2)
        | (Inr _, r2) \<Rightarrow> (leaving, r2))))"

subsection \<open>Steps that only query\<close>

text \<open>
  The calls that neither open nor close anything, and the steps that make only such
  calls and leave the two local names as they are. These notions serve the proofs about
  \<^verbatim>\<open>main\<close>.
\<close>

fun is_query :: "event \<Rightarrow> bool" where
  "is_query (Execute _) = True"
| "is_query (ExecuteValues _ _) = True"
| "is_query Fetchone = True"
| "is_query Commit = True"
| "is_query _ = False"

definition quiet :: "'a step \<Rightarrow> bool" where
  "quiet m \<longleftrightarrow>
     (\<forall>r. conn (snd (m r)) = conn r \<and> cursor (snd (m r)) = cursor r \<and>
          stdout r = take (length (stdout r)) (stdout (snd (m r))) \<and>
          (\<exists>evs. trace (snd (m r)) = trace r @ evs \<and> list_all is_query evs))"

text \<open>The steps that make no call at all.\<close>

definition silent :: "'a step \<Rightarrow> bool" where
  "silent m \<longleftrightarrow>
     (\<forall>r. trace (snd (m r)) = trace r \<and> conn (snd (m r)) = conn r \<and> cursor (snd (m r)) = cursor r)"

section \<open>Example inputs\<close>

text \<open>
  A table with four rows that has \<^verbatim>\<open>futime\<close>, \<^verbatim>\<open>death_event\<close> and the seventeen
  feature columns; its column \<^verbatim>\<open>chol\<close> holds 1, 2, a missing value and 4.
\<close>

definition example_table :: frame where
  "example_table =
     \<lparr>nrows = 4,
      columns = map (\<lambda>name. (name,
          if name = ''chol''
          then \<lparr>dtype = NumpyFloat64, cells = [Some 1, Some 2, None, Some 4]\<rparr>
          else \<lparr>dtype = NumpyInt64, cells = [Some 0, Some 0, Some 0, Some 0]\<rparr>))
        (''futime'' # ''death_event'' # feature_cols)\<rparr>"

text \<open>
  A CSV file with three patients, of the kind the converter writes (here with the columns
  that \<^verbatim>\<open>get_survival_data\<close> uses). The stage of the third patient is missing.
\<close>

definition example_ml_csv :: string where
  "example_ml_csv = concat (map (\<lambda>line. line @ [LF])
     [''futime,death_event,age_years,male,ascites,hepato,spiders,edema,bili,chol,albumin,copper,alk_phos,sgot,trig,platelet,protime,stage,drug_treatment'',
      ''400,1,58.8,0,1,1,1,1.0,14.5,261,2.6,156,1718.0,137.95,172,190,12.2,1,1'',
      ''4500,0,56.4,0,0,1,1,0.0,1.1,302,4.14,54,7394.8,113.52,88,221,10.6,2,1'',
      ''1012,1,70.1,1,0,0,0,0.5,1.4,176,3.48,210,516.0,96.1,55,151,12.0,,0''])"

section \<open>Evaluation\<close>

text \<open>The definitions that evaluate the reading of a file, for concrete inputs.\<close>

lemmas read_eval =
  read_pbc_data_def and_then_def open_read_def read_csv_whitespace_def
  splitlines_def fields_whitespace_def LF_def CR_def read_table_def column_names_def
  default_na_values_def parse_field_def parse_number_def is_digit_def nat_of_digits_def
  digit_val_def infer_series_def Let_def

lemmas csv_eval =
  load_pbc_data_def read_csv_def str_split_def categorical_cols_def setitem_def
  astype_Int64_def is_integer_def

section \<open>Properties of the text functions\<close>

lemma split_where_nonempty: "split_where P s \<noteq> []"
  by (induction s) (auto split: list.splits)

lemma split_where_no_sep: "seg \<in> set (split_where P s) \<Longrightarrow> \<forall>c \<in> set seg. \<not> P c"
proof (induction s arbitrary: seg)
  case Nil
  then show ?case by simp
next
  case (Cons c cs)
  obtain x xs where sp: "split_where P cs = x # xs"
    using split_where_nonempty [of P cs] by (cases "split_where P cs") auto
  show ?case
  proof (cases "P c")
    case True
    with Cons show ?thesis by auto
  next
    case False
    from Cons.prems False sp have "seg = c # x \<or> seg \<in> set xs" by simp
    then show ?thesis
    proof
      assume "seg = c # x"
      moreover have "\<forall>c \<in> set x. \<not> P c" using Cons.IH [of x] sp by simp
      ultimately show ?thesis using False by auto
    next
      assume "seg \<in> set xs"
      then show ?thesis using Cons.IH [of seg] sp by simp
    qed
  qed
qed

lemma str_split_no_sep: "seg \<in> set (str_split sep s) \<Longrightarrow> sep \<notin> set seg"
  using split_where_no_sep [of seg "\<lambda>c. c = sep" s] by (auto simp: str_split_def)

lemma str_join_Cons: "segs \<noteq> [] \<Longrightarrow> str_join sep (seg # segs) = seg @ sep # str_join sep segs"
  by (cases segs) simp_all

lemma str_join_split: "str_join sep (str_split sep s) = s"
proof (induction s)
  case Nil
  then show ?case by (simp add: str_split_def)
next
  case (Cons c cs)
  obtain x xs where sp: "split_where (\<lambda>c. c = sep) cs = x # xs"
    using split_where_nonempty [of "\<lambda>c. c = sep" cs]
    by (cases "split_where (\<lambda>c. c = sep) cs") auto
  show ?case
  proof (cases "c = sep")
    case True
    then show ?thesis using Cons sp by (simp add: str_split_def str_join_Cons)
  next
    case False
    then show ?thesis using Cons sp by (cases xs) (simp_all add: str_split_def)
  qed
qed

lemma set_dropWhile_subset: "set (dropWhile P xs) \<subseteq> set xs"
  by (induction xs) auto

lemma set_str_strip: "set (str_strip s) \<subseteq> set s"
proof -
  have "set (str_strip s) = set (dropWhile isspace (rev (dropWhile isspace s)))"
    by (simp add: str_strip_def)
  also have "\<dots> \<subseteq> set (rev (dropWhile isspace s))" by (rule set_dropWhile_subset)
  also have "\<dots> \<subseteq> set s" using set_dropWhile_subset [of isspace s] by simp
  finally show ?thesis .
qed

section \<open>The schema loader\<close>

lemma schema_statements_no_terminator:
  "statement \<in> set (schema_statements schema_sql) \<Longrightarrow> CHR '';'' \<notin> set statement"
  using str_split_no_sep set_str_strip by (fastforce simp: schema_statements_def)

lemma schema_statements_nonempty:
  "statement \<in> set (schema_statements schema_sql) \<Longrightarrow> statement \<noteq> []"
  by (auto simp: schema_statements_def)

lemma execute_each_accepted:
  "(\<And>tr st. driver w tr (Execute st) = None) \<Longrightarrow>
   execute_each w statements r = (Inr (), r\<lparr>trace := trace r @ map Execute statements\<rparr>)"
proof (induction statements arbitrary: r)
  case Nil
  then show ?case by (simp add: lift_def)
next
  case (Cons statement rest)
  then show ?case by (simp add: then_do_def call_def)
qed

text \<open>
  C8. \<^verbatim>\<open>load_schema_from_file\<close> cuts the text of the schema file at every \<open>;\<close> (the
  segments joined by \<open>;\<close> are the text again), and, when the server accepts them, sends in
  order exactly the segments that are not empty once stripped, each stripped and each as a
  statement of its own. No statement sent contains the terminator: a statement of the file
  that has a \<open>;\<close> inside it reaches the server in pieces.
\<close>

theorem load_schema_executes_split_statements:
  assumes "files w path = Some schema_sql"
    and "\<And>tr st. driver w tr (Execute st) = None"
  shows "load_schema_from_file w path r =
           (Inr (), r\<lparr>trace := trace r @ map Execute
              (map str_strip (filter (\<lambda>stmt. str_strip stmt \<noteq> [])
                 (str_split (CHR '';'') schema_sql)))\<rparr>)
         \<and> str_join (CHR '';'') (str_split (CHR '';'') schema_sql) = schema_sql
         \<and> (\<forall>statement \<in> set (schema_statements schema_sql).
               statement \<noteq> [] \<and> CHR '';'' \<notin> set statement)"
proof (intro conjI)
  show "load_schema_from_file w path r =
           (Inr (), r\<lparr>trace := trace r @ map Execute
              (map str_strip (filter (\<lambda>stmt. str_strip stmt \<noteq> [])
                 (str_split (CHR '';'') schema_sql)))\<rparr>)"
    using assms(1) execute_each_accepted [of w "schema_statements schema_sql" r, OF assms(2)]
    by (simp add: load_schema_from_file_def schema_statements_def then_do_def lift_def open_read_def)
  show "str_join (CHR '';'') (str_split (CHR '';'') schema_sql) = schema_sql"
    by (rule str_join_split)
  show "\<forall>statement \<in> set (schema_statements schema_sql).
          statement \<noteq> [] \<and> CHR '';'' \<notin> set statement"
    using schema_statements_no_terminator schema_statements_nonempty by blast
qed

theorem load_schema_executes_split_statements_witness:
  "files \<lparr>files = Map.empty(''pbc_schema.sql'' \<mapsto>
              ''CREATE TABLE t (a int);'' @ [LF] @ '' ; CREATE INDEX i ON t (a);'' @ [LF]),
           environ = Map.empty, driver = (\<lambda>tr ev. None), fetched = (\<lambda>tr. None)\<rparr>
      ''pbc_schema.sql''
     = Some (''CREATE TABLE t (a int);'' @ [LF] @ '' ; CREATE INDEX i ON t (a);'' @ [LF])
   \<and> load_schema_from_file
        \<lparr>files = Map.empty(''pbc_schema.sql'' \<mapsto>
              ''CREATE TABLE t (a int);'' @ [LF] @ '' ; CREATE INDEX i ON t (a);'' @ [LF]),
           environ = Map.empty, driver = (\<lambda>tr ev. None), fetched = (\<lambda>tr. None)\<rparr>
        ''pbc_schema.sql'' run0
      = (Inr (), run0\<lparr>trace := [Execute ''CREATE TABLE t (a int)'',
                                  Execute ''CREATE INDEX i ON t (a)'']\<rparr>)"
  using load_schema_executes_split_statements
    [of "\<lparr>files = Map.empty(''pbc_schema.sql'' \<mapsto>
              ''CREATE TABLE t (a int);'' @ [LF] @ '' ; CREATE INDEX i ON t (a);'' @ [LF]),
           environ = Map.empty, driver = (\<lambda>tr ev. None), fetched = (\<lambda>tr. None)\<rparr>"
        "''pbc_schema.sql''"
        "''CREATE TABLE t (a int);'' @ [LF] @ '' ; CREATE INDEX i ON t (a);'' @ [LF]"
        run0]
  by (simp add: str_strip_def isspace_def str_split_def LF_def run0_def)

text \<open>
  A statement with the terminator inside a string literal is cut there, and the server
  is sent the two pieces.
\<close>

lemma schema_statement_with_terminator_is_cut:
  "schema_statements ''INSERT INTO t VALUES ('a;b');''
     = [''INSERT INTO t VALUES ('a'', ''b')'']"
  by (simp add: schema_statements_def str_strip_def isspace_def str_split_def)

text \<open>A statement that the server refuses ends the loop: the ones after it are not sent.\<close>

lemma execute_each_stops_at_refusal:
  "driver w (trace r) (Execute statement) = Some e \<Longrightarrow>
   execute_each w (statement # rest) r = (Inl e, r)"
  by (simp add: then_do_def call_def)

section \<open>The run of \<^verbatim>\<open>main\<close>\<close>

lemma quiet_print: "quiet (print template args)"
  by (simp add: quiet_def print_def)

lemma quiet_lift: "quiet (lift x)"
  by (simp add: quiet_def lift_def)

lemma quiet_call: "is_query ev \<Longrightarrow> quiet (call w ev)"
  by (auto simp: quiet_def call_def split: option.splits)

lemma quiet_fetchone: "quiet (fetchone w)"
  by (auto simp: quiet_def fetchone_def split: option.splits)

lemma quiet_then_do:
  assumes "quiet m" and "\<And>x. quiet (f x)"
  shows "quiet (then_do m f)"
  unfolding quiet_def
proof (intro allI)
  fix r
  obtain res r1 where m: "m r = (res, r1)" by (cases "m r")
  from assms(1) m obtain evs1 where
    r1: "conn r1 = conn r" "cursor r1 = cursor r"
        "stdout r = take (length (stdout r)) (stdout r1)"
        "trace r1 = trace r @ evs1" "list_all is_query evs1"
    unfolding quiet_def by (metis snd_conv)
  show "conn (snd (then_do m f r)) = conn r \<and> cursor (snd (then_do m f r)) = cursor r \<and>
        stdout r = take (length (stdout r)) (stdout (snd (then_do m f r))) \<and>
        (\<exists>evs. trace (snd (then_do m f r)) = trace r @ evs \<and> list_all is_query evs)"
  proof (cases res)
    case (Inl e)
    with m r1 show ?thesis by (auto simp: then_do_def)
  next
    case (Inr x)
    from assms(2) [of x] obtain evs2 where
      r2: "conn (snd (f x r1)) = conn r1" "cursor (snd (f x r1)) = cursor r1"
          "stdout r1 = take (length (stdout r1)) (stdout (snd (f x r1)))"
          "trace (snd (f x r1)) = trace r1 @ evs2" "list_all is_query evs2"
      unfolding quiet_def by metis
    have "stdout r = take (length (stdout r)) (stdout (snd (f x r1)))"
      using r1(3) r2(3) by (metis min.absorb2 nat_le_linear take_all take_take length_take min.cobounded2)
    with m Inr r1 r2 show ?thesis by (auto simp: then_do_def)
  qed
qed


lemma quiet_execute_each: "quiet (execute_each w statements)"
  by (induction statements) (simp_all add: quiet_lift quiet_then_do quiet_call)

lemma quiet_execute_pages: "quiet (execute_pages w sql pages)"
  by (induction pages) (simp_all add: quiet_lift quiet_then_do quiet_call)

lemma quiet_load_schema_from_file: "quiet (load_schema_from_file w path)"
  by (simp add: load_schema_from_file_def quiet_then_do quiet_lift quiet_execute_each)

lemma quiet_insert_pbc_data: "quiet (insert_pbc_data w df)"
  by (simp add: insert_pbc_data_def execute_values_def quiet_then_do quiet_lift
      quiet_execute_pages)

lemma quiet_load_section: "quiet (load_section w df)"
  by (simp add: load_section_def quiet_then_do quiet_print quiet_call
      quiet_load_schema_from_file quiet_insert_pbc_data)

lemma quiet_verify_section: "quiet (verify_section w)"
  by (simp add: verify_section_def quiet_then_do quiet_print quiet_call quiet_lift
      quiet_fetchone)

text \<open>Reading the file sends nothing to the driver.\<close>

lemma silent_print: "silent (print template args)"
  by (simp add: silent_def print_def)

lemma silent_lift: "silent (lift x)"
  by (simp add: silent_def lift_def)

lemma silent_then_do:
  assumes "silent m" and "\<And>x. silent (f x)"
  shows "silent (then_do m f)"
  unfolding silent_def
proof (intro allI)
  fix r
  obtain res r1 where m: "m r = (res, r1)" by (cases "m r")
  from assms(1) m have r1: "trace r1 = trace r" "conn r1 = conn r" "cursor r1 = cursor r"
    unfolding silent_def by (metis snd_conv)+
  show "trace (snd (then_do m f r)) = trace r \<and> conn (snd (then_do m f r)) = conn r
        \<and> cursor (snd (then_do m f r)) = cursor r"
  proof (cases res)
    case (Inl e)
    with m r1 show ?thesis by (simp add: then_do_def)
  next
    case (Inr x)
    from assms(2) [of x] have "trace (snd (f x r1)) = trace r1" "conn (snd (f x r1)) = conn r1"
      "cursor (snd (f x r1)) = cursor r1" unfolding silent_def by simp_all
    with m Inr r1 show ?thesis by (simp add: then_do_def)
  qed
qed

lemma read_section_silent:
  assumes "read_section w r = (res, r')"
  shows "trace r' = trace r \<and> conn r' = conn r \<and> cursor r' = cursor r"
proof -
  have "silent (read_section w)"
    by (simp add: read_section_def silent_then_do silent_print silent_lift)
  with assms show ?thesis unfolding silent_def by (metis snd_conv)
qed

text \<open>The three ways in which the connection section can end.\<close>

lemma connect_section_cases:
  assumes "connect_section w r = (res, r')"
  shows "((\<exists>e. res = Inl e) \<and> trace r' = trace r \<and> conn r' = conn r \<and> cursor r' = cursor r)
       \<or> ((\<exists>e. res = Inl e) \<and> trace r' = trace r @ [Connect (db_params w)]
            \<and> conn r' \<and> cursor r' = cursor r)
       \<or> (res = Inr () \<and> trace r' = trace r @ [Connect (db_params w), OpenCursor]
            \<and> conn r' \<and> cursor r')"
proof (cases "driver w (trace r) (Connect (db_params w))")
  case (Some e)
  with assms have "res = Inl e \<and> trace r' = trace r \<and> conn r' = conn r \<and> cursor r' = cursor r"
    by (auto simp: connect_section_def then_do_def print_def call_def)
  then show ?thesis by blast
next
  case None
  show ?thesis
  proof (cases "driver w (trace r @ [Connect (db_params w)]) OpenCursor")
    case (Some e)
    with None assms have "res = Inl e \<and> trace r' = trace r @ [Connect (db_params w)]
        \<and> conn r' \<and> cursor r' = cursor r"
      by (auto simp: connect_section_def then_do_def print_def call_def bind_conn_def)
    then show ?thesis by blast
  next
    case ok: None
    with None assms have "res = Inr () \<and> trace r' = trace r @ [Connect (db_params w), OpenCursor]
        \<and> conn r' \<and> cursor r'"
      by (auto simp: connect_section_def then_do_def print_def call_def bind_conn_def
          bind_cursor_def)
    then show ?thesis by blast
  qed
qed

lemma quiet_effect:
  assumes "quiet m" and "m r = (res, r')"
  shows "conn r' = conn r \<and> cursor r' = cursor r
         \<and> (\<exists>evs. trace r' = trace r @ evs \<and> list_all is_query evs)"
  using assms unfolding quiet_def by (metis snd_conv)

text \<open>
  Where the body of the \<^verbatim>\<open>try\<close> can stop: before the connection exists, with the
  connection but no cursor, or with both and any number of queries sent.
\<close>

lemma main_try_shape:
  assumes "main_try w run0 = (res, r)"
  shows "((\<exists>e. res = Inl e) \<and> trace r = [] \<and> \<not> conn r \<and> \<not> cursor r)
       \<or> ((\<exists>e. res = Inl e) \<and> trace r = [Connect (db_params w)] \<and> conn r \<and> \<not> cursor r)
       \<or> (\<exists>evs. trace r = Connect (db_params w) # OpenCursor # evs \<and> list_all is_query evs
            \<and> conn r \<and> cursor r)"
proof -
  obtain res1 r1 where s1: "read_section w run0 = (res1, r1)"
    by (cases "read_section w run0")
  from read_section_silent [OF s1]
  have r1: "trace r1 = []" "\<not> conn r1" "\<not> cursor r1" by (simp_all add: run0_def)
  show ?thesis
  proof (cases res1)
    case (Inl e)
    with assms s1 have "res = Inl e" "r = r1" by (simp_all add: main_try_def then_do_def)
    with r1 show ?thesis by simp
  next
    case (Inr df)
    obtain res2 r2 where s2: "connect_section w r1 = (res2, r2)"
      by (cases "connect_section w r1")
    show ?thesis
    proof (cases res2)
      case (Inl e)
      with assms s1 s2 Inr have "res = Inl e" "r = r2"
        by (simp_all add: main_try_def then_do_def)
      with connect_section_cases [OF s2] r1 Inl show ?thesis by auto
    next
      case ok: (Inr u)
      with connect_section_cases [OF s2] r1
      have r2: "trace r2 = [Connect (db_params w), OpenCursor]" "conn r2" "cursor r2" by auto
      obtain res3 r3 where s3: "load_section w df r2 = (res3, r3)"
        by (cases "load_section w df r2")
      from quiet_effect [OF quiet_load_section s3] r2 obtain evs3 where
        r3: "trace r3 = Connect (db_params w) # OpenCursor # evs3" "list_all is_query evs3"
            "conn r3" "cursor r3" by auto
      show ?thesis
      proof (cases res3)
        case (Inl e)
        with assms s1 s2 s3 Inr ok have "r = r3" by (simp add: main_try_def then_do_def)
        with r3 show ?thesis by simp
      next
        case loaded: (Inr u')
        with assms s1 s2 s3 Inr ok have s4: "verify_section w r3 = (res, r)"
          by (simp add: main_try_def then_do_def)
        from quiet_effect [OF quiet_verify_section s4] r3 obtain evs4 where
          "trace r = Connect (db_params w) # OpenCursor # (evs3 @ evs4)"
          "list_all is_query evs4" "conn r" "cursor r" by auto
        with r3 show ?thesis by auto
      qed
    qed
  qed
qed

lemma is_query_not_open_close:
  "list_all is_query evs \<Longrightarrow>
   CloseCursor \<notin> set evs \<and> CloseConn \<notin> set evs \<and> OpenCursor \<notin> set evs
   \<and> (\<forall>p. Connect p \<notin> set evs)"
  by (induction evs) auto

text \<open>The handlers send nothing to the driver and bind nothing.\<close>

lemma handlers_keep:
  "handlers e r = (leaving, r') \<Longrightarrow>
   trace r' = trace r \<and> conn r' = conn r \<and> cursor r' = cursor r"
  by (cases e) (auto simp: handlers_def)

lemma finally_block_effect:
  "finally_block r =
     (Inr (), r\<lparr>trace := trace r @ (if cursor r then [CloseCursor] else [])
                                @ (if conn r then [CloseConn] else [])\<rparr>)"
  by (simp add: finally_block_def then_do_def close_cursor_def close_conn_def)


text \<open>
  C7. Whatever the world does, the run of \<^verbatim>\<open>main\<close> ends as follows. Every exception of
  the body that is an \<^verbatim>\<open>Exception\<close> is caught: nothing leaves \<^verbatim>\<open>main\<close>. A missing
  file, a database error and any other exception are each reported with a message of
  their own, after what the body had printed. On every path, the cursor and the
  connection that the body has opened are closed, the cursor first, as the last calls of
  the run; the body itself closes nothing.
\<close>

theorem main_catches_and_releases:
  assumes "main_try w run0 = (res, r)" and "main w = (leaving, rf)"
  shows "(res \<noteq> Inl KeyboardInterrupt \<longrightarrow> leaving = None)
       \<and> (\<forall>m. res = Inl (FileNotFoundError m) \<longrightarrow>
             stdout rf = stdout r @
               [(''Error: File not found - {e}'', [AExn (FileNotFoundError m)]),
                (''Make sure pbc.dat.txt and pbc_schema.sql are in the current directory'', [])])
       \<and> (\<forall>m. res = Inl (Psycopg2Error m) \<longrightarrow>
             stdout rf = stdout r @
               [(''Database error: {e}'', [AExn (Psycopg2Error m)]),
                (''Check PostgreSQL connection parameters and ensure database exists'', [])])
       \<and> (\<forall>e. res = Inl e \<longrightarrow> (\<forall>m. e \<noteq> FileNotFoundError m) \<longrightarrow> (\<forall>m. e \<noteq> Psycopg2Error m) \<longrightarrow>
             e \<noteq> KeyboardInterrupt \<longrightarrow>
             stdout rf = stdout r @ [(''Unexpected error: {e}'', [AExn e])])
       \<and> (\<forall>x. res = Inr x \<longrightarrow> stdout rf = stdout r)
       \<and> trace rf = trace r @ (if OpenCursor \<in> set (trace r) then [CloseCursor] else [])
                            @ (if \<exists>p. Connect p \<in> set (trace r) then [CloseConn] else [])
       \<and> CloseCursor \<notin> set (trace r) \<and> CloseConn \<notin> set (trace r)"
proof -
  obtain leaving1 r1 where h: "(case res of Inr _ \<Rightarrow> (None, r) | Inl e \<Rightarrow> handlers e r) = (leaving1, r1)"
    by (cases "case res of Inr _ \<Rightarrow> (None, r) | Inl e \<Rightarrow> handlers e r")
  have m: "leaving = leaving1"
          "rf = r1\<lparr>trace := trace r1 @ (if cursor r1 then [CloseCursor] else [])
                                      @ (if conn r1 then [CloseConn] else [])\<rparr>"
    using assms h by (simp_all add: main_def finally_block_effect)
  have keep: "trace r1 = trace r" "conn r1 = conn r" "cursor r1 = cursor r"
    using h handlers_keep by (cases res; force)+
  have out: "stdout rf = stdout r1" using m by simp
  have flags: "cursor r \<longleftrightarrow> OpenCursor \<in> set (trace r)"
              "conn r \<longleftrightarrow> (\<exists>p. Connect p \<in> set (trace r))"
              "CloseCursor \<notin> set (trace r)" "CloseConn \<notin> set (trace r)"
    using main_try_shape [OF assms(1)] is_query_not_open_close by auto
  have "res \<noteq> Inl KeyboardInterrupt \<longrightarrow> leaving = None"
    using h m(1) by (cases res) (auto simp: handlers_def split: exn.splits)
  moreover have "\<forall>m. res = Inl (FileNotFoundError m) \<longrightarrow>
             stdout rf = stdout r @
               [(''Error: File not found - {e}'', [AExn (FileNotFoundError m)]),
                (''Make sure pbc.dat.txt and pbc_schema.sql are in the current directory'', [])]"
    using h out by (auto simp: handlers_def)
  moreover have "\<forall>m. res = Inl (Psycopg2Error m) \<longrightarrow>
             stdout rf = stdout r @
               [(''Database error: {e}'', [AExn (Psycopg2Error m)]),
                (''Check PostgreSQL connection parameters and ensure database exists'', [])]"
    using h out by (auto simp: handlers_def)
  moreover have "\<forall>e. res = Inl e \<longrightarrow> (\<forall>m. e \<noteq> FileNotFoundError m) \<longrightarrow> (\<forall>m. e \<noteq> Psycopg2Error m) \<longrightarrow>
             e \<noteq> KeyboardInterrupt \<longrightarrow>
             stdout rf = stdout r @ [(''Unexpected error: {e}'', [AExn e])]"
    using h out by (auto simp: handlers_def split: exn.splits)
  moreover have "\<forall>x. res = Inr x \<longrightarrow> stdout rf = stdout r"
    using h out by auto
  moreover have "trace rf = trace r @ (if OpenCursor \<in> set (trace r) then [CloseCursor] else [])
                            @ (if \<exists>p. Connect p \<in> set (trace r) then [CloseConn] else [])"
    using m(2) keep flags(1,2) by simp
  ultimately show ?thesis using flags(3,4) by blast
qed

theorem main_catches_and_releases_witness:
  "fst (main \<lparr>files = Map.empty(''pbc.dat.txt'' \<mapsto>
            ''1 400 2 1 21464 1 1 1 1 1.0 14.5 261 2.60 156 1718 137.95 172 190 12.2 4''),
          environ = Map.empty, driver = (\<lambda>tr ev. None), fetched = (\<lambda>tr. None)\<rparr>) = None
   \<and> trace (snd (main \<lparr>files = Map.empty(''pbc.dat.txt'' \<mapsto>
            ''1 400 2 1 21464 1 1 1 1 1.0 14.5 261 2.60 156 1718 137.95 172 190 12.2 4''),
          environ = Map.empty, driver = (\<lambda>tr ev. None), fetched = (\<lambda>tr. None)\<rparr>))
      = [Connect [(''host'', ''localhost''), (''port'', ''5432''),
                  (''database'', ''liver_transplant''), (''user'', ''postgres''),
                  (''password'', ''password'')],
         OpenCursor, CloseCursor, CloseConn]"
proof -
  let ?w = "\<lparr>files = Map.empty(''pbc.dat.txt'' \<mapsto>
            ''1 400 2 1 21464 1 1 1 1 1.0 14.5 261 2.60 156 1718 137.95 172 190 12.2 4''),
          environ = Map.empty, driver = (\<lambda>tr ev. None), fetched = (\<lambda>tr. None)\<rparr>"
  define r where "r = snd (main_try ?w run0)"
  have res: "fst (main_try ?w run0) = Inl (FileNotFoundError ''pbc_schema.sql'')"
    by (simp add: main_try_def read_section_def connect_section_def load_section_def
        then_do_def print_def lift_def call_def bind_conn_def bind_cursor_def
        load_schema_from_file_def pbc_file_def schema_file_def run0_def getitem_def read_eval)
  have tr: "trace r = [Connect (db_params ?w), OpenCursor]"
    unfolding r_def
    by (simp add: main_try_def read_section_def connect_section_def load_section_def
        then_do_def print_def lift_def call_def bind_conn_def bind_cursor_def
        load_schema_from_file_def pbc_file_def schema_file_def run0_def getitem_def read_eval)
  have mt: "main_try ?w run0 = (Inl (FileNotFoundError ''pbc_schema.sql''), r)"
    using res r_def by (simp add: prod_eq_iff)
  have m: "main ?w = (fst (main ?w), snd (main ?w))" by simp
  from main_catches_and_releases [OF mt m] tr show ?thesis
    by (simp add: db_params_def getenv_def)
qed

text \<open>
  C10. The \<^verbatim>\<open>finally\<close> block closes the cursor exactly when the name \<^verbatim>\<open>cursor\<close> has
  been bound and the connection exactly when \<^verbatim>\<open>conn\<close> has been bound, and it never
  raises the error of an unbound name. A run that fails before any connection exists
  ends as its handler leaves it: the block closes nothing, no call has reached the
  driver, and the message of the handler is the last thing printed.
\<close>

theorem cleanup_closes_only_what_was_bound:
  assumes "main_try w run0 = (res, r)" and "main w = (leaving, rf)"
  shows "(CloseCursor \<in> set (trace rf) \<longleftrightarrow> cursor r)
       \<and> (CloseConn \<in> set (trace rf) \<longleftrightarrow> conn r)
       \<and> (\<forall>name. leaving \<noteq> Some (UnboundLocalError name))
       \<and> ((\<forall>p. Connect p \<notin> set (trace r)) \<longrightarrow>
            (\<exists>e. res = Inl e \<and> main w = handlers e r) \<and> trace rf = []
            \<and> \<not> conn r \<and> \<not> cursor r)"
proof -
  obtain leaving1 r1 where h: "(case res of Inr _ \<Rightarrow> (None, r) | Inl e \<Rightarrow> handlers e r) = (leaving1, r1)"
    by (cases "case res of Inr _ \<Rightarrow> (None, r) | Inl e \<Rightarrow> handlers e r")
  have m: "leaving = leaving1"
          "rf = r1\<lparr>trace := trace r1 @ (if cursor r1 then [CloseCursor] else [])
                                      @ (if conn r1 then [CloseConn] else [])\<rparr>"
    using assms h by (simp_all add: main_def finally_block_effect)
  have keep: "trace r1 = trace r" "conn r1 = conn r" "cursor r1 = cursor r"
    using h handlers_keep by (cases res; force)+
  have shape: "((\<exists>e. res = Inl e) \<and> trace r = [] \<and> \<not> conn r \<and> \<not> cursor r)
       \<or> ((\<exists>e. res = Inl e) \<and> trace r = [Connect (db_params w)] \<and> conn r \<and> \<not> cursor r)
       \<or> (\<exists>evs. trace r = Connect (db_params w) # OpenCursor # evs \<and> list_all is_query evs
            \<and> conn r \<and> cursor r)"
    by (rule main_try_shape [OF assms(1)])
  have noclose: "CloseCursor \<notin> set (trace r)" "CloseConn \<notin> set (trace r)"
    using shape is_query_not_open_close by auto
  have c1: "CloseCursor \<in> set (trace rf) \<longleftrightarrow> cursor r"
    using m(2) keep noclose by simp
  have c2: "CloseConn \<in> set (trace rf) \<longleftrightarrow> conn r"
    using m(2) keep noclose by simp
  have c3: "\<forall>name. leaving \<noteq> Some (UnboundLocalError name)"
    using h m(1) by (cases res) (auto simp: handlers_def split: exn.splits)
  have c4: "(\<forall>p. Connect p \<notin> set (trace r)) \<longrightarrow>
            (\<exists>e. res = Inl e \<and> main w = handlers e r) \<and> trace rf = []
            \<and> \<not> conn r \<and> \<not> cursor r"
  proof
    assume nc: "\<forall>p. Connect p \<notin> set (trace r)"
    with shape obtain e where e: "res = Inl e" "trace r = []" "\<not> conn r" "\<not> cursor r"
      by auto
    from h e have "handlers e r = (leaving1, r1)" by simp
    moreover have "rf = r1" using m(2) keep e by simp
    ultimately have "main w = handlers e r" using assms(2) m(1) by simp
    moreover have "trace rf = []" using \<open>rf = r1\<close> keep e by simp
    ultimately show "(\<exists>e. res = Inl e \<and> main w = handlers e r) \<and> trace rf = []
            \<and> \<not> conn r \<and> \<not> cursor r" using e by blast
  qed
  from c1 c2 c3 c4 show ?thesis by blast
qed

theorem cleanup_closes_only_what_was_bound_witness:
  "main \<lparr>files = Map.empty, environ = Map.empty, driver = (\<lambda>tr ev. None), fetched = (\<lambda>tr. None)\<rparr>
     = handlers (FileNotFoundError ''pbc.dat.txt'')
         (run0\<lparr>stdout := [(''Reading PBC data from {pbc_file}...'', [AStr ''pbc.dat.txt''])]\<rparr>)
   \<and> trace (snd (main \<lparr>files = Map.empty, environ = Map.empty, driver = (\<lambda>tr ev. None),
                         fetched = (\<lambda>tr. None)\<rparr>)) = []"
  using cleanup_closes_only_what_was_bound
    [of "\<lparr>files = Map.empty, environ = Map.empty, driver = (\<lambda>tr ev. None), fetched = (\<lambda>tr. None)\<rparr>"
        "fst (main_try \<lparr>files = Map.empty, environ = Map.empty, driver = (\<lambda>tr ev. None),
                        fetched = (\<lambda>tr. None)\<rparr> run0)"
        "snd (main_try \<lparr>files = Map.empty, environ = Map.empty, driver = (\<lambda>tr ev. None),
                        fetched = (\<lambda>tr. None)\<rparr> run0)"
        "fst (main \<lparr>files = Map.empty, environ = Map.empty, driver = (\<lambda>tr ev. None),
                    fetched = (\<lambda>tr. None)\<rparr>)"
        "snd (main \<lparr>files = Map.empty, environ = Map.empty, driver = (\<lambda>tr ev. None),
                    fetched = (\<lambda>tr. None)\<rparr>)"]
  by (simp add: main_try_def read_section_def then_do_def print_def lift_def
      read_pbc_data_def and_then_def open_read_def pbc_file_def run0_def handlers_def)

section \<open>Inserting the rows\<close>

lemma insert_pbc_data_raises:
  "insert_pbc_data w df r = (Inl (ValueError ''Must specify a fill 'value' or 'method'.''), r)"
  by (simp add: insert_pbc_data_def fillna_value_def then_do_def lift_def)

text \<open>
  C1. The claim does not hold of the code. \<^verbatim>\<open>insert_pbc_data\<close> starts with
  \<^verbatim>\<open>df.fillna(None)\<close>, which raises \<^verbatim>\<open>ValueError\<close>, so it builds no tuple and sends
  no row. Here the file has a row with three missing values: the table that is read holds
  them as missing cells, and the call ends with the exception and without any call to the
  driver.
\<close>

theorem insert_pbc_data_raises_on_missing_values:
  "\<exists>df. read_pbc_data
           (Map.empty(''pbc.dat.txt'' \<mapsto>
              ''2 4500 0 . 20617 0 . 1 1 0.0 1.1 . 4.14 54 7394.8 113.52 88 221 10.6 3''))
           ''pbc.dat.txt'' = Inr df
       \<and> frame_values df =
           [[Some 2, Some 4500, Some 0, None, Some 20617, Some 0, None, Some 1, Some 1, Some 0,
             Some (11 / 10), None, Some (207 / 50), Some 54, Some (36974 / 5),
             Some (2838 / 25), Some 88, Some 221, Some (53 / 5), Some 3]]
       \<and> insert_pbc_data
            \<lparr>files = Map.empty, environ = Map.empty, driver = (\<lambda>tr ev. None),
               fetched = (\<lambda>tr. None)\<rparr> df run0
          = (Inl (ValueError ''Must specify a fill 'value' or 'method'.''), run0)"
  by (simp add: insert_pbc_data_raises frame_values_def read_eval)

section \<open>The upsert\<close>







text \<open>
  One statement that proposes both rows is refused: two rows with one identifier reach
  the table only through two statements.
\<close>

lemma insert_on_conflict_same_key_in_one_statement:
  assumes "patient_of_tuple t1 = Some p1" and "patient_of_tuple t2 = Some p2"
    and "patient_id p1 = patient_id p2"
  shows "insert_on_conflict [t1, t2] table
           = Inl (Psycopg2Error ''ON CONFLICT DO UPDATE command cannot affect row a second time'')"
  using assms by (simp add: insert_on_conflict_def)

section \<open>The derived columns\<close>

lemma map_of_replace:
  "map_of (map (\<lambda>(n, old). (n, if n = name then s else old)) cols) m =
     (if m = name then (if name \<in> fst ` set cols then Some s else None) else map_of cols m)"
  by (induction cols) force+

lemma getitem_setitem:
  "getitem (setitem df name s) m = (if m = name then Inr s else getitem df m)"
proof (cases "name \<in> fst ` set (columns df)")
  case True
  then show ?thesis by (simp add: getitem_def setitem_def map_of_replace)
next
  case False
  then have "map_of (columns df) name = None" by (simp add: map_of_eq_None_iff)
  with False show ?thesis
    by (auto simp: getitem_def setitem_def map_add_def split: option.splits)
qed

text \<open>
  C2. For a table that has the columns \<^verbatim>\<open>age\<close>, \<^verbatim>\<open>status\<close>, \<^verbatim>\<open>sex\<close> and
  \<^verbatim>\<open>drug\<close>, the converter's derived columns are, row by row:
  \<^verbatim>\<open>age_years\<close> is \<^verbatim>\<open>age\<close> divided by 365.25 (exactly; missing where the age is
  missing), \<^verbatim>\<open>death_event\<close> is 1 where \<^verbatim>\<open>status\<close> is 2 and 0 elsewhere,
  \<^verbatim>\<open>male\<close> is 1 where \<^verbatim>\<open>sex\<close> is 0 and 0 elsewhere, \<^verbatim>\<open>female\<close> is 1 where
  \<^verbatim>\<open>sex\<close> is 1 and 0 elsewhere, \<^verbatim>\<open>drug_treatment\<close> is 1 where \<^verbatim>\<open>drug\<close>
  is 1 and 0 elsewhere.
\<close>

theorem ml_features_derived_columns:
  assumes "getitem df ''age'' = Inr age_col" and "getitem df ''status'' = Inr status_col"
    and "getitem df ''sex'' = Inr sex_col" and "getitem df ''drug'' = Inr drug_col"
  shows "\<exists>df_ml. ml_features df = Inr df_ml
       \<and> getitem df_ml ''age_years'' =
           Inr \<lparr>dtype = NumpyFloat64,
                cells = map (map_option (\<lambda>a. a / (36525 / 100))) (cells age_col)\<rparr>
       \<and> getitem df_ml ''death_event'' =
           Inr \<lparr>dtype = NumpyInt64,
                cells = map (\<lambda>c. Some (if c = Some 2 then 1 else 0)) (cells status_col)\<rparr>
       \<and> getitem df_ml ''male'' =
           Inr \<lparr>dtype = NumpyInt64,
                cells = map (\<lambda>c. Some (if c = Some 0 then 1 else 0)) (cells sex_col)\<rparr>
       \<and> getitem df_ml ''female'' =
           Inr \<lparr>dtype = NumpyInt64,
                cells = map (\<lambda>c. Some (if c = Some 1 then 1 else 0)) (cells sex_col)\<rparr>
       \<and> getitem df_ml ''drug_treatment'' =
           Inr \<lparr>dtype = NumpyInt64,
                cells = map (\<lambda>c. Some (if c = Some 1 then 1 else 0)) (cells drug_col)\<rparr>"
  using assms
  by (simp add: ml_features_def and_then_def getitem_setitem Let_def series_truediv_def
      series_eq_def astype_int_def comp_def)

theorem ml_features_derived_columns_witness:
  "\<exists>df df_ml.
     read_pbc_data
       (Map.empty(''pbc.dat.txt'' \<mapsto>
          ''1 400 2 1 21464 1 1 1 1 1.0 14.5 261 2.60 156 1718 137.95 172 190 12.2 4''))
       ''pbc.dat.txt'' = Inr df
   \<and> ml_features df = Inr df_ml
   \<and> getitem df_ml ''age_years'' = Inr \<lparr>dtype = NumpyFloat64, cells = [Some (85856 / 1461)]\<rparr>
   \<and> \<bar>85856 / 1461 - 5877 / 100\<bar> < (1 / 200 :: rat)
   \<and> getitem df_ml ''death_event'' = Inr \<lparr>dtype = NumpyInt64, cells = [Some 1]\<rparr>
   \<and> getitem df_ml ''male'' = Inr \<lparr>dtype = NumpyInt64, cells = [Some 0]\<rparr>
   \<and> getitem df_ml ''female'' = Inr \<lparr>dtype = NumpyInt64, cells = [Some 1]\<rparr>
   \<and> getitem df_ml ''drug_treatment'' = Inr \<lparr>dtype = NumpyInt64, cells = [Some 1]\<rparr>"
proof -
  let ?fs = "Map.empty(''pbc.dat.txt'' \<mapsto>
          ''1 400 2 1 21464 1 1 1 1 1.0 14.5 261 2.60 156 1718 137.95 172 190 12.2 4'')"
  obtain df where df: "read_pbc_data ?fs ''pbc.dat.txt'' = Inr df"
    and cols: "getitem df ''age'' = Inr \<lparr>dtype = NumpyInt64, cells = [Some 21464]\<rparr>"
      "getitem df ''status'' = Inr \<lparr>dtype = NumpyInt64, cells = [Some 2]\<rparr>"
      "getitem df ''sex'' = Inr \<lparr>dtype = NumpyInt64, cells = [Some 1]\<rparr>"
      "getitem df ''drug'' = Inr \<lparr>dtype = NumpyInt64, cells = [Some 1]\<rparr>"
    by (simp add: getitem_def read_eval)
  from ml_features_derived_columns [OF cols] df show ?thesis
    by auto
qed

section \<open>The survival data\<close>

lemma getitem_list_present:
  assumes "set names \<subseteq> fst ` set (columns df)"
  shows "getitem_list df names =
           Inr \<lparr>nrows = nrows df,
                columns = map (\<lambda>name. (name, the (map_of (columns df) name))) names\<rparr>"
proof -
  have "filter (\<lambda>name. map_of (columns df) name = None) names = []"
    using assms by (auto simp: filter_empty_conv map_of_eq_None_iff)
  then show ?thesis by (simp add: getitem_list_def)
qed

lemma getitem_list_absent:
  assumes "\<not> set names \<subseteq> fst ` set (columns df)"
  shows "\<exists>name. getitem_list df names = Inl (KeyError name) \<and> name \<in> set names
               \<and> name \<notin> fst ` set (columns df)"
proof -
  from assms obtain n where "n \<in> set names" "map_of (columns df) n = None"
    by (auto simp: map_of_eq_None_iff)
  then have "filter (\<lambda>name. map_of (columns df) name = None) names \<noteq> []"
    by (auto simp: filter_empty_conv)
  then obtain m ms where f: "filter (\<lambda>name. map_of (columns df) name = None) names = m # ms"
    by (cases "filter (\<lambda>name. map_of (columns df) name = None) names") auto
  then have "m \<in> set (filter (\<lambda>name. map_of (columns df) name = None) names)" by simp
  then have "m \<in> set names" "m \<notin> fst ` set (columns df)"
    by (auto simp: map_of_eq_None_iff)
  with f show ?thesis by (auto simp: getitem_list_def)
qed

lemma getitem_present:
  "name \<in> fst ` set (columns df) \<Longrightarrow> \<exists>s. getitem df name = Inr s \<and> (name, s) \<in> set (columns df)"
  by (cases "map_of (columns df) name") (auto simp: getitem_def map_of_eq_None_iff dest: map_of_SomeD)

lemma getitem_absent:
  "name \<notin> fst ` set (columns df) \<Longrightarrow> getitem df name = Inl (KeyError name)"
  by (simp add: getitem_def map_of_eq_None_iff [symmetric])

lemma series_fillna_length:
  "series_fillna s fill = Inr s' \<Longrightarrow> length (cells s') = length (cells s)"
  by (auto simp: series_fillna_def split: option.splits if_splits)

lemma fillna_columns_shape:
  "fillna_columns fills cols = Inr cols' \<Longrightarrow>
   map fst cols' = map fst cols \<and> map (length \<circ> cells \<circ> snd) cols' = map (length \<circ> cells \<circ> snd) cols"
proof (induction cols arbitrary: cols')
  case Nil
  then show ?case by simp
next
  case (Cons c cols)
  obtain name s where c: "c = (name, s)" by (cases c)
  from Cons.prems c obtain s' rest' where
    s': "(case map_of fills name of None \<Rightarrow> Inr s | Some fill \<Rightarrow> series_fillna s fill) = Inr s'"
    and rest': "fillna_columns fills cols = Inr rest'" and eq: "cols' = (name, s') # rest'"
    by (auto split: sum.splits)
  have "length (cells s') = length (cells s)"
    using s' series_fillna_length by (cases "map_of fills name") auto
  with Cons.IH [OF rest'] c eq show ?case by simp
qed

lemma fillna_columns_raises:
  "fillna_columns fills cols = Inl e \<Longrightarrow> \<exists>m. e = TypeError m"
proof (induction cols)
  case Nil
  then show ?case by simp
next
  case (Cons c cols)
  obtain name s where c: "c = (name, s)" by (cases c)
  with Cons show ?case
    by (auto simp: series_fillna_def split: sum.splits option.splits if_splits)
qed

lemma fillna_shape:
  assumes "fillna df fills = Inr df'" and "wf_frame df"
  shows "nrows df' = nrows df \<and> map fst (columns df') = map fst (columns df) \<and> wf_frame df'"
proof -
  from assms(1) obtain cols where c: "fillna_columns fills (columns df) = Inr cols"
    and df': "df' = df\<lparr>columns := cols\<rparr>"
    by (auto simp: fillna_def split: sum.splits)
  from fillna_columns_shape [OF c] have names: "map fst cols = map fst (columns df)"
    and lens: "map (length \<circ> cells \<circ> snd) cols = map (length \<circ> cells \<circ> snd) (columns df)"
    by simp_all
  have "\<forall>x \<in> set (columns df). (length \<circ> cells \<circ> snd) x = nrows df"
    using assms(2) by (auto simp: wf_frame_def)
  then have "\<forall>n \<in> set (map (length \<circ> cells \<circ> snd) (columns df)). n = nrows df" by simp
  then have "\<forall>n \<in> set (map (length \<circ> cells \<circ> snd) cols). n = nrows df" using lens by simp
  then have "\<forall>(name, s) \<in> set cols. length (cells s) = nrows df" by auto
  with names assms(2) df' show ?thesis by (simp add: wf_frame_def)
qed

lemma fillna_raises: "fillna df fills = Inl e \<Longrightarrow> \<exists>m. e = TypeError m"
  using fillna_columns_raises by (auto simp: fillna_def split: sum.splits)

lemma getitem_list_wf:
  assumes "wf_frame df" and "set names \<subseteq> fst ` set (columns df)" and "distinct names"
  shows "wf_frame \<lparr>nrows = nrows df,
                   columns = map (\<lambda>name. (name, the (map_of (columns df) name))) names\<rparr>"
proof -
  have "length (cells (the (map_of (columns df) name))) = nrows df" if "name \<in> set names" for name
  proof -
    from that assms(2) obtain s where "map_of (columns df) name = Some s"
      by (cases "map_of (columns df) name") (auto simp: map_of_eq_None_iff)
    moreover from this have "(name, s) \<in> set (columns df)" by (rule map_of_SomeD)
    ultimately show ?thesis using assms(1) by (auto simp: wf_frame_def)
  qed
  with assms(3) show ?thesis by (auto simp: wf_frame_def comp_def)
qed

lemma distinct_feature_cols: "distinct feature_cols"
  by (simp add: feature_cols_def)


lemma get_survival_data_unfold:
  assumes "deref h df = Inr d" and "getitem d ''futime'' = Inr T"
    and "getitem d ''death_event'' = Inr E" and "getitem_list d feature_cols = Inr sel"
  shows "get_survival_data h df =
           (case fillna sel (frame_median sel) of
              Inl e \<Rightarrow> (Inl e, h @ [sel, sel])
            | Inr filled \<Rightarrow> (Inr (cells T, cells E, length h + 2), h @ [sel, sel, filled]))"
  using assms
  by (simp add: get_survival_data_def alloc_def nth_append split: sum.splits)

text \<open>
  C5, as the code has it. For a table with \<open>N\<close> rows: when \<^verbatim>\<open>futime\<close>,
  \<^verbatim>\<open>death_event\<close> and all seventeen feature columns are there, the call either returns
  two vectors of length \<open>N\<close> and a new table with \<open>N\<close> rows whose columns are exactly the
  seventeen feature columns, in the documented order, or it raises \<^verbatim>\<open>TypeError\<close> in the
  imputation; when one of these columns is not there, the call raises \<^verbatim>\<open>KeyError\<close> for
  a column that is not there: it does not return a table without that column.
\<close>

theorem get_survival_data_shape:
  assumes "deref h df = Inr d" and "wf_frame d" and "get_survival_data h df = (res, h')"
  shows "(set (''futime'' # ''death_event'' # feature_cols) \<subseteq> fst ` set (columns d) \<longrightarrow>
            (\<exists>T E x X. res = Inr (T, E, x) \<and> length T = nrows d \<and> length E = nrows d
                \<and> deref h' x = Inr X \<and> nrows X = nrows d
                \<and> map fst (columns X) = feature_cols \<and> wf_frame X)
          \<or> (\<exists>m. res = Inl (TypeError m)))
       \<and> (\<not> set (''futime'' # ''death_event'' # feature_cols) \<subseteq> fst ` set (columns d) \<longrightarrow>
            (\<exists>name. res = Inl (KeyError name) \<and> name \<notin> fst ` set (columns d)))"
proof (intro conjI impI)
  assume all: "set (''futime'' # ''death_event'' # feature_cols) \<subseteq> fst ` set (columns d)"
  then have f: "''futime'' \<in> fst ` set (columns d)"
    and e: "''death_event'' \<in> fst ` set (columns d)"
    and fc: "set feature_cols \<subseteq> fst ` set (columns d)" by simp_all
  from getitem_present [OF f] obtain T where T: "getitem d ''futime'' = Inr T"
    "(''futime'', T) \<in> set (columns d)" by blast
  from getitem_present [OF e] obtain E where E: "getitem d ''death_event'' = Inr E"
    "(''death_event'', E) \<in> set (columns d)" by blast
  have lens: "length (cells T) = nrows d" "length (cells E) = nrows d"
    using assms(2) T(2) E(2) by (auto simp: wf_frame_def)
  let ?sel = "\<lparr>nrows = nrows d,
               columns = map (\<lambda>name. (name, the (map_of (columns d) name))) feature_cols\<rparr>"
  have sel: "getitem_list d feature_cols = Inr ?sel" by (rule getitem_list_present [OF fc])
  have wf_sel: "wf_frame ?sel" by (rule getitem_list_wf [OF assms(2) fc distinct_feature_cols])
  have names_sel: "map fst (columns ?sel) = feature_cols" by (simp add: comp_def)
  note unfold = get_survival_data_unfold [OF assms(1) T(1) E(1) sel]
  show "(\<exists>T E x X. res = Inr (T, E, x) \<and> length T = nrows d \<and> length E = nrows d
                \<and> deref h' x = Inr X \<and> nrows X = nrows d
                \<and> map fst (columns X) = feature_cols \<and> wf_frame X)
          \<or> (\<exists>m. res = Inl (TypeError m))"
  proof (cases "fillna ?sel (frame_median ?sel)")
    case (Inl ex)
    with unfold assms(3) have "res = Inl ex" by simp
    with fillna_raises [OF Inl] show ?thesis by blast
  next
    case (Inr filled)
    with unfold assms(3) have res: "res = Inr (cells T, cells E, length h + 2)"
      and h': "h' = h @ [?sel, ?sel, filled]" by simp_all
    from fillna_shape [OF Inr wf_sel] names_sel
    have filled: "nrows filled = nrows d" "map fst (columns filled) = feature_cols"
      "wf_frame filled" by simp_all
    have "deref h' (length h + 2) = Inr filled" using h' by (simp add: deref_def nth_append)
    with res lens filled show ?thesis by blast
  qed
next
  assume absent: "\<not> set (''futime'' # ''death_event'' # feature_cols) \<subseteq> fst ` set (columns d)"
  show "\<exists>name. res = Inl (KeyError name) \<and> name \<notin> fst ` set (columns d)"
  proof (cases "''futime'' \<in> fst ` set (columns d)")
    case False
    with assms(1,3) getitem_absent [OF False] show ?thesis
      by (auto simp: get_survival_data_def)
  next
    case f: True
    from getitem_present [OF f] obtain T where T: "getitem d ''futime'' = Inr T" by blast
    show ?thesis
    proof (cases "''death_event'' \<in> fst ` set (columns d)")
      case False
      with assms(1,3) T getitem_absent [OF False] show ?thesis
        by (auto simp: get_survival_data_def)
    next
      case e: True
      from getitem_present [OF e] obtain E where E: "getitem d ''death_event'' = Inr E" by blast
      from absent f e have "\<not> set feature_cols \<subseteq> fst ` set (columns d)" by simp
      from getitem_list_absent [OF this] obtain name where
        "getitem_list d feature_cols = Inl (KeyError name)" "name \<notin> fst ` set (columns d)"
        by blast
      with assms(1,3) T E show ?thesis by (auto simp: get_survival_data_def)
    qed
  qed
qed


lemma floor_numeral_div_rat:
  "\<lfloor>numeral a / numeral b :: rat\<rfloor> = numeral a div numeral b"
  using floor_divide_of_int_eq [of "numeral a" "numeral b", where ?'a = rat] by simp

lemmas survival_eval =
  get_survival_data_def deref_def alloc_def getitem_def getitem_list_def feature_cols_def
  frame_median_def series_median_def present_def fillna_def series_fillna_def
  is_integer_def floor_numeral_div_rat Let_def

text \<open>
  The claim of C5 as the specification states it fails on a table that lacks a feature
  column: with \<^verbatim>\<open>futime\<close>, \<^verbatim>\<open>death_event\<close> and \<^verbatim>\<open>age_years\<close> only, the call does
  not return a matrix with the one column \<^verbatim>\<open>age_years\<close>; it raises \<^verbatim>\<open>KeyError\<close>.
\<close>

theorem get_survival_data_missing_column_counterexample:
  "get_survival_data
     [\<lparr>nrows = 1,
       columns = [(''futime'', \<lparr>dtype = NumpyInt64, cells = [Some 400]\<rparr>),
                  (''death_event'', \<lparr>dtype = NumpyInt64, cells = [Some 1]\<rparr>),
                  (''age_years'', \<lparr>dtype = NumpyFloat64, cells = [Some (588 / 10)]\<rparr>)]\<rparr>] 0
   = (Inl (KeyError ''male''),
      [\<lparr>nrows = 1,
        columns = [(''futime'', \<lparr>dtype = NumpyInt64, cells = [Some 400]\<rparr>),
                   (''death_event'', \<lparr>dtype = NumpyInt64, cells = [Some 1]\<rparr>),
                   (''age_years'', \<lparr>dtype = NumpyFloat64, cells = [Some (588 / 10)]\<rparr>)]\<rparr>])"
  by (simp add: survival_eval)

theorem get_survival_data_shape_witness:
  "deref [example_table] 0 = Inr example_table \<and> wf_frame example_table
   \<and> fst (get_survival_data [example_table] 0)
        = Inr ([Some 0, Some 0, Some 0, Some 0], [Some 0, Some 0, Some 0, Some 0], 3)
   \<and> (\<exists>X. deref (snd (get_survival_data [example_table] 0)) 3 = Inr X
          \<and> nrows X = 4 \<and> map fst (columns X) = feature_cols \<and> wf_frame X)"
proof -
  have d: "deref [example_table] 0 = Inr example_table" by (simp add: deref_def)
  have wf: "wf_frame example_table"
    by (simp add: example_table_def wf_frame_def feature_cols_def)
  have n: "nrows example_table = 4" by (simp add: example_table_def)
  have pres: "set (''futime'' # ''death_event'' # feature_cols)
                \<subseteq> fst ` set (columns example_table)"
    by (simp add: example_table_def feature_cols_def)
  have ev: "fst (get_survival_data [example_table] 0)
        = Inr ([Some 0, Some 0, Some 0, Some 0], [Some 0, Some 0, Some 0, Some 0], 3)"
    by (simp add: example_table_def survival_eval)
  have m: "get_survival_data [example_table] 0
             = (fst (get_survival_data [example_table] 0), snd (get_survival_data [example_table] 0))"
    by simp
  from get_survival_data_shape [OF d wf m] pres ev n d wf show ?thesis by auto
qed

section \<open>The imputation\<close>

lemma case_option_id: "map (\<lambda>c. case c of None \<Rightarrow> None | Some x \<Rightarrow> Some x) cs = cs"
  by (induction cs) (auto split: option.splits)

text \<open>
  What the imputation does to a column when it does not raise: every missing cell gets the
  median of the present values of that column, and every other cell is kept. A column
  with no value at all has no median and stays as it is.
\<close>

lemma series_fillna_median:
  "series_fillna s (series_median s) = Inr s' \<Longrightarrow>
   s' = s\<lparr>cells := map (\<lambda>c. case c of None \<Rightarrow> series_median s | Some x \<Rightarrow> Some x) (cells s)\<rparr>"
  by (cases "series_median s") (auto simp: series_fillna_def case_option_id split: if_splits)

lemma fillna_columns_median:
  assumes "\<And>name s. (name, s) \<in> set cols \<Longrightarrow> map_of fills name = Some (series_median s)"
    and "fillna_columns fills cols = Inr cols'"
  shows "cols' = map (\<lambda>(name, s). (name,
            s\<lparr>cells := map (\<lambda>c. case c of None \<Rightarrow> series_median s | Some x \<Rightarrow> Some x) (cells s)\<rparr>)) cols"
  using assms
proof (induction cols arbitrary: cols')
  case Nil
  then show ?case by simp
next
  case (Cons c cols)
  obtain name s where c: "c = (name, s)" by (cases c)
  have fill: "map_of fills name = Some (series_median s)" using Cons.prems(1) c by simp
  from Cons.prems(2) c fill obtain s' rest' where
    s': "series_fillna s (series_median s) = Inr s'"
    and rest': "fillna_columns fills cols = Inr rest'" and eq: "cols' = (name, s') # rest'"
    by (auto split: sum.splits)
  have "rest' = map (\<lambda>(name, s). (name,
            s\<lparr>cells := map (\<lambda>c. case c of None \<Rightarrow> series_median s | Some x \<Rightarrow> Some x) (cells s)\<rparr>)) cols"
    using Cons.IH [OF _ rest'] Cons.prems(1) by simp
  with series_fillna_median [OF s'] c eq show ?case by simp
qed

lemma map_of_map_snd:
  "map_of (map (\<lambda>(name, s). (name, f s)) cols) name = map_option f (map_of cols name)"
  by (induction cols) auto

lemma fillna_frame_median:
  assumes "distinct (map fst (columns df))" and "fillna df (frame_median df) = Inr df'"
  shows "columns df' = map (\<lambda>(name, s). (name,
            s\<lparr>cells := map (\<lambda>c. case c of None \<Rightarrow> series_median s | Some x \<Rightarrow> Some x) (cells s)\<rparr>))
          (columns df)"
proof -
  have fills: "map_of (frame_median df) name = Some (series_median s)"
    if "(name, s) \<in> set (columns df)" for name s
  proof -
    have "map_of (columns df) name = Some s" using assms(1) that by simp
    then show ?thesis by (simp add: frame_median_def map_of_map_snd)
  qed
  from assms(2) obtain cols where c: "fillna_columns (frame_median df) (columns df) = Inr cols"
    and df': "df' = df\<lparr>columns := cols\<rparr>"
    by (auto simp: fillna_def split: sum.splits)
  from fillna_columns_median [OF fills c] df' show ?thesis by simp
qed


lemma get_survival_data_imputes_median:
  assumes "deref h df = Inr d" and "wf_frame d"
    and "get_survival_data h df = (Inr (T, E, x), h')"
  shows "\<exists>X. deref h' x = Inr X
       \<and> columns X = map (\<lambda>name. (name,
            let s = the (map_of (columns d) name)
            in s\<lparr>cells := map (\<lambda>c. case c of None \<Rightarrow> series_median s | Some v \<Rightarrow> Some v)
                              (cells s)\<rparr>)) feature_cols"
proof -
  have all: "set (''futime'' # ''death_event'' # feature_cols) \<subseteq> fst ` set (columns d)"
    using get_survival_data_shape [OF assms] by auto
  then have f: "''futime'' \<in> fst ` set (columns d)"
    and e: "''death_event'' \<in> fst ` set (columns d)"
    and fc: "set feature_cols \<subseteq> fst ` set (columns d)" by simp_all
  from getitem_present [OF f] obtain T' where T: "getitem d ''futime'' = Inr T'" by blast
  from getitem_present [OF e] obtain E' where E: "getitem d ''death_event'' = Inr E'" by blast
  let ?sel = "\<lparr>nrows = nrows d,
               columns = map (\<lambda>name. (name, the (map_of (columns d) name))) feature_cols\<rparr>"
  have sel: "getitem_list d feature_cols = Inr ?sel" by (rule getitem_list_present [OF fc])
  have dist: "distinct (map fst (columns ?sel))"
    using distinct_feature_cols by (simp add: comp_def)
  note unfold = get_survival_data_unfold [OF assms(1) T E sel]
  from unfold assms(3) obtain filled where
    filled: "fillna ?sel (frame_median ?sel) = Inr filled"
    and x: "x = length h + 2" and h': "h' = h @ [?sel, ?sel, filled]"
    by (auto split: sum.splits)
  have "deref h' x = Inr filled" using x h' by (simp add: deref_def nth_append)
  moreover have "columns filled = map (\<lambda>name. (name,
            let s = the (map_of (columns d) name)
            in s\<lparr>cells := map (\<lambda>c. case c of None \<Rightarrow> series_median s | Some v \<Rightarrow> Some v)
                              (cells s)\<rparr>)) feature_cols"
    using fillna_frame_median [OF dist filled] by (simp add: comp_def Let_def)
  ultimately show ?thesis by blast
qed

text \<open>
  The example of the specification: the column with the values 1, 2 and 4 and one missing
  value gets 2 in the place of the missing value.
\<close>

lemma get_survival_data_imputes_example:
  "\<exists>X. deref (snd (get_survival_data [example_table] 0)) 3 = Inr X
      \<and> getitem X ''chol'' = Inr \<lparr>dtype = NumpyFloat64, cells = [Some 1, Some 2, Some 2, Some 4]\<rparr>"
  by (simp add: example_table_def survival_eval)

text \<open>
  C4. The claim does not hold of the code for a nullable integer column.
  \<^verbatim>\<open>load_pbc_data\<close> turns \<^verbatim>\<open>stage\<close> (and five more feature columns) into \<^verbatim>\<open>Int64\<close>
  columns. In the file of the example the present stages are 1 and 2, so the median is
  1.5, which such a column does not take: \<^verbatim>\<open>X.fillna(X.median())\<close> raises
  \<^verbatim>\<open>TypeError\<close>, and the missing stage is not replaced by anything.
\<close>

theorem get_survival_data_raises_on_fractional_median:
  "\<exists>d. load_pbc_data (Map.empty(''pbc_ml_ready.csv'' \<mapsto> example_ml_csv)) ''pbc_ml_ready.csv''
          = Inr d
      \<and> getitem d ''stage'' = Inr \<lparr>dtype = NullableInt64, cells = [Some 1, Some 2, None]\<rparr>
      \<and> series_median \<lparr>dtype = NullableInt64, cells = [Some 1, Some 2, None]\<rparr> = Some (3 / 2)
      \<and> fst (get_survival_data [d] 0) = Inl (TypeError ''Invalid value for dtype Int64'')"
proof -
  define d where "d =
    \<lparr>nrows = 3,
     columns =
       [(''futime'', \<lparr>dtype = NumpyInt64, cells = [Some 400, Some 4500, Some 1012]\<rparr>),
        (''death_event'', \<lparr>dtype = NullableInt64, cells = [Some 1, Some 0, Some 1]\<rparr>),
        (''age_years'', \<lparr>dtype = NumpyFloat64,
                          cells = [Some (294 / 5), Some (282 / 5), Some (701 / 10)]\<rparr>),
        (''male'', \<lparr>dtype = NullableInt64, cells = [Some 0, Some 0, Some 1]\<rparr>),
        (''ascites'', \<lparr>dtype = NullableInt64, cells = [Some 1, Some 0, Some 0]\<rparr>),
        (''hepato'', \<lparr>dtype = NullableInt64, cells = [Some 1, Some 1, Some 0]\<rparr>),
        (''spiders'', \<lparr>dtype = NullableInt64, cells = [Some 1, Some 1, Some 0]\<rparr>),
        (''edema'', \<lparr>dtype = NumpyFloat64, cells = [Some 1, Some 0, Some (1 / 2)]\<rparr>),
        (''bili'', \<lparr>dtype = NumpyFloat64,
                     cells = [Some (29 / 2), Some (11 / 10), Some (7 / 5)]\<rparr>),
        (''chol'', \<lparr>dtype = NumpyInt64, cells = [Some 261, Some 302, Some 176]\<rparr>),
        (''albumin'', \<lparr>dtype = NumpyFloat64,
                        cells = [Some (13 / 5), Some (207 / 50), Some (87 / 25)]\<rparr>),
        (''copper'', \<lparr>dtype = NumpyInt64, cells = [Some 156, Some 54, Some 210]\<rparr>),
        (''alk_phos'', \<lparr>dtype = NumpyFloat64,
                         cells = [Some 1718, Some (36974 / 5), Some 516]\<rparr>),
        (''sgot'', \<lparr>dtype = NumpyFloat64,
                     cells = [Some (2759 / 20), Some (2838 / 25), Some (961 / 10)]\<rparr>),
        (''trig'', \<lparr>dtype = NumpyInt64, cells = [Some 172, Some 88, Some 55]\<rparr>),
        (''platelet'', \<lparr>dtype = NumpyInt64, cells = [Some 190, Some 221, Some 151]\<rparr>),
        (''protime'', \<lparr>dtype = NumpyFloat64, cells = [Some (61 / 5), Some (53 / 5), Some 12]\<rparr>),
        (''stage'', \<lparr>dtype = NullableInt64, cells = [Some 1, Some 2, None]\<rparr>),
        (''drug_treatment'', \<lparr>dtype = NullableInt64, cells = [Some 1, Some 1, Some 0]\<rparr>)]\<rparr>"
  have load: "load_pbc_data (Map.empty(''pbc_ml_ready.csv'' \<mapsto> example_ml_csv))
                ''pbc_ml_ready.csv'' = Inr d"
    unfolding d_def
    by (simp add: example_ml_csv_def csv_eval getitem_def read_eval)
  have stage: "getitem d ''stage'' = Inr \<lparr>dtype = NullableInt64, cells = [Some 1, Some 2, None]\<rparr>"
    by (simp add: d_def getitem_def)
  have median: "series_median \<lparr>dtype = NullableInt64, cells = [Some 1, Some 2, None]\<rparr> = Some (3 / 2)"
    by (simp add: series_median_def present_def)
  have raises: "fst (get_survival_data [d] 0) = Inl (TypeError ''Invalid value for dtype Int64'')"
    unfolding d_def by (simp add: survival_eval)
  from load stage median raises show ?thesis by blast
qed

section \<open>The tables are left as they are\<close>

lemma get_survival_data_store:
  "\<exists>new. snd (get_survival_data h df) = h @ new"
  by (auto simp: get_survival_data_def alloc_def Let_def split: sum.splits)

text \<open>
  C9. \<^verbatim>\<open>get_survival_data\<close> changes no table that exists when it is called, the one it
  is given included: it only adds new tables to the store (the selection, its copy, and
  the imputed table), whether it returns or raises. \<^verbatim>\<open>print_dataset_summary\<close> leaves the
  store as it is and only adds lines to what has been printed.
  \<^verbatim>\<open>get_feature_descriptions\<close> has no table to change: it is a constant.
\<close>

theorem survival_functions_leave_tables_unchanged:
  "take (length h) (snd (get_survival_data h df)) = h
   \<and> snd (snd (print_dataset_summary h df out)) = h
   \<and> take (length out) (fst (snd (print_dataset_summary h df out))) = out"
proof (intro conjI)
  from get_survival_data_store [of h df] obtain new where
    "snd (get_survival_data h df) = h @ new" by blast
  then show "take (length h) (snd (get_survival_data h df)) = h" by simp
  show "snd (snd (print_dataset_summary h df out)) = h"
    by (simp add: print_dataset_summary_def Let_def split: sum.splits)
  show "take (length out) (fst (snd (print_dataset_summary h df out))) = out"
    by (simp add: print_dataset_summary_def Let_def split: sum.splits)
qed

end
